theory Spec2Isabelle
  imports Main "HOL-Library.Sublist"
begin

section \<open>Strings, formatting and the standard library\<close>

text \<open>
  Go strings are byte sequences; \<^typ>\<open>string\<close> is a list of bytes. A Go \<open>error\<close> is
  identified with the text \<open>err.Error()\<close> returns, which is what the verbs \<open>%v\<close> and
  \<open>%w\<close> of \<open>fmt.Errorf\<close> insert; the verb \<open>%s\<close> inserts its argument unchanged.
\<close>

type_synonym error = string

definition nl :: string where
  "nl = [CHR 0x0A]"

definition dquote :: string where
  "dquote = [CHR 0x22]"

definition backslash :: string where
  "backslash = [CHR 0x5C]"

definition tab :: string where
  "tab = [CHR 0x09]"

text \<open>The format fragment \<open>'%s'\<close>: the argument between two single quotes.\<close>

definition sq :: "string \<Rightarrow> string" where
  "sq s = [CHR 0x27] @ s @ [CHR 0x27]"

text \<open>The pictographs of the messages, as the UTF-8 bytes of the source file.\<close>

definition e_search :: string where
  "e_search = [CHR 0xF0, CHR 0x9F, CHR 0x94, CHR 0x8E]"

definition e_check :: string where
  "e_check = [CHR 0xE2, CHR 0x9C, CHR 0x85]"

definition e_info :: string where
  "e_info = [CHR 0xE2, CHR 0x84, CHR 0xB9, CHR 0xEF, CHR 0xB8, CHR 0x8F]"

definition e_cross :: string where
  "e_cross = [CHR 0xE2, CHR 0x9D, CHR 0x8C]"

definition e_party :: string where
  "e_party = [CHR 0xF0, CHR 0x9F, CHR 0x8E, CHR 0x89]"

text \<open>
  \<open>strings.Contains(s, substr)\<close>: \<open>substr\<close> occurs in \<open>s\<close> as a contiguous run of bytes;
  the empty string occurs in every string.
\<close>

fun Contains :: "string \<Rightarrow> string \<Rightarrow> bool" where
  "Contains [] substr = (substr = [])"
| "Contains (c # s) substr = (prefix substr (c # s) \<or> Contains s substr)"

text \<open>
  \<open>strings.ToLower\<close> on bytes: an ASCII capital letter moves to its small letter
  (\<open>c += 'a' - 'A'\<close>), every other byte stays. On ASCII input this is Go's function.
  On other input Go maps whole code points; the only code points outside ASCII whose
  small letter is an ASCII letter are U+0130 (to i) and U+212A (to k), and none of the
  names the workload switch compares with holds an i or a k, so the switch takes the
  same branch under both functions.
\<close>

definition lowerByte :: "char \<Rightarrow> char" where
  "lowerByte c =
     (let n = (of_char c :: nat)
      in if 65 \<le> n \<and> n \<le> 90 then char_of (n + 32) else c)"

definition ToLower :: "string \<Rightarrow> string" where
  "ToLower s = map lowerByte s"

section \<open>Data model\<close>

subsection \<open>The cluster record of the control plane\<close>

record WorkloadIdentityConfig =
  WorkloadPool :: string

text \<open>\<open>WorkloadIdentityConfig\<close> is a pointer in the source: \<open>nil\<close> is \<open>None\<close>.\<close>

record Cluster =
  Name :: string
  Location :: string
  WorkloadIdentityConfig :: "WorkloadIdentityConfig option"

subsection \<open>Objects of the cluster's store\<close>

record ServiceAccount =
  Annotations :: "string \<rightharpoonup> string"

record PodSpec =
  ServiceAccountName :: string

record PodTemplateSpec =
  PodTemplateSpec_Spec :: PodSpec

record DeploymentSpec =
  DeploymentSpec_Template :: PodTemplateSpec

record Deployment =
  Deployment_Spec :: DeploymentSpec

record StatefulSetSpec =
  StatefulSetSpec_Template :: PodTemplateSpec

record StatefulSet =
  StatefulSet_Spec :: StatefulSetSpec

record DaemonSetSpec =
  DaemonSetSpec_Template :: PodTemplateSpec

record DaemonSet =
  DaemonSet_Spec :: DaemonSetSpec

record JobSpec =
  JobSpec_Template :: PodTemplateSpec

record Job =
  Job_Spec :: JobSpec

record JobTemplateSpec =
  JobTemplateSpec_Spec :: JobSpec

record CronJobSpec =
  CronJobSpec_JobTemplate :: JobTemplateSpec

record CronJob =
  CronJob_Spec :: CronJobSpec

subsection \<open>Policies\<close>

text \<open>
  The policy types of the IAM and of the resource-manager client libraries have the same
  shape as far as the program reads them: an ordered list of bindings, each a role and an
  ordered list of members.
\<close>

record Binding =
  Role :: string
  Members :: "string list"

record Policy =
  Bindings :: "Binding list"

subsection \<open>The remote services\<close>

text \<open>
  Every remote read is a parameter of the model: a function from the coordinates the
  program sends to the error or the object the service answers with.
  \<open>Clientset\<close> is the Kubernetes client set (a getter by namespace and name for each kind
  of object), \<open>services\<close> the two Google Cloud policy clients (each with the error its
  constructor may return), \<open>platform\<close> the cluster manager and the construction of the
  client set from a cluster record.
\<close>

record Clientset =
  ServiceAccounts :: "string \<Rightarrow> string \<Rightarrow> error + ServiceAccount"
  Deployments :: "string \<Rightarrow> string \<Rightarrow> error + Deployment"
  StatefulSets :: "string \<Rightarrow> string \<Rightarrow> error + StatefulSet"
  DaemonSets :: "string \<Rightarrow> string \<Rightarrow> error + DaemonSet"
  Jobs :: "string \<Rightarrow> string \<Rightarrow> error + Job"
  CronJobs :: "string \<Rightarrow> string \<Rightarrow> error + CronJob"

record services =
  iam_NewService :: "error option"
  crm_NewService :: "error option"
  Projects_GetIamPolicy :: "string \<Rightarrow> error + Policy"
  ServiceAccounts_GetIamPolicy :: "string \<Rightarrow> error + Policy"

record platform =
  NewClusterManagerClient :: "error option"
  GetCluster :: "string \<Rightarrow> error + Cluster"
  K8sClientset :: "Cluster \<Rightarrow> error + Clientset"

subsection \<open>Process state\<close>

text \<open>
  The calls the program makes, in the order it makes them, are recorded in the state, so
  that "this service is not queried" is a statement about the record.
\<close>

datatype call =
    ClusterGet string
  | ServiceAccountGet string string
  | DeploymentGet string string
  | StatefulSetGet string string
  | DaemonSetGet string string
  | JobGet string string
  | CronJobGet string string
  | IamNewService
  | CrmNewService
  | ProjectGetIamPolicy string
  | GsaGetIamPolicy string

text \<open>
  The package-level variables the flags fill (\<open>projectID\<close>, \<open>location\<close>,
  \<open>clusterName\<close>), the text written to standard output (one element for each print
  call) and the record of calls.
\<close>

record world =
  projectID :: string
  location :: string
  clusterName :: string
  stdout :: "string list"
  calls :: "call list"

definition Printf :: "string \<Rightarrow> world \<Rightarrow> world" where
  "Printf s w = w\<lparr>stdout := stdout w @ [s]\<rparr>"

definition Println :: "string \<Rightarrow> world \<Rightarrow> world" where
  "Println s w = Printf (s @ nl) w"

definition invoke :: "call \<Rightarrow> world \<Rightarrow> world" where
  "invoke c w = w\<lparr>calls := calls w @ [c]\<rparr>"

text \<open>What a run wrote to standard output, given the state before and after it.\<close>

definition printed :: "world \<Rightarrow> world \<Rightarrow> string list" where
  "printed w w' = drop (length (stdout w)) (stdout w')"

text \<open>The calls a run made, given the state before and after it.\<close>

definition called :: "world \<Rightarrow> world \<Rightarrow> call list" where
  "called w w' = drop (length (calls w)) (calls w')"

section \<open>Resolving a workload to its service account\<close>

text \<open>The two error messages of \<open>getKsaFromWorkload\<close>.\<close>

definition errCouldNotGet :: "string \<Rightarrow> string \<Rightarrow> string \<Rightarrow> error \<Rightarrow> error" where
  "errCouldNotGet namespace name wType err =
     ''could not get workload '' @ sq (namespace @ ''/'' @ name) @ '' of type '' @ sq wType
     @ '': '' @ err"

definition errUnsupported :: "string \<Rightarrow> error" where
  "errUnsupported wType = ''unsupported workload type '' @ sq wType"

text \<open>
  The tail of \<open>getKsaFromWorkload\<close>, after the switch: the error of the fetch is wrapped,
  an empty name becomes \<open>default\<close>.
\<close>

definition afterSwitch :: "string \<Rightarrow> string \<Rightarrow> string \<Rightarrow> error + string \<Rightarrow> error + string" where
  "afterSwitch namespace name wType r =
     (case r of
        Inl err \<Rightarrow>
          Inl (errCouldNotGet namespace name wType err)
      | Inr serviceAccountName \<Rightarrow>
          if serviceAccountName = [] then Inr ''default'' else Inr serviceAccountName)"

text \<open>
  \<open>getKsaFromWorkload\<close>: the switch on the lower-case kind string fetches the workload
  from the store of its kind and reads the service account name of its pod template; a
  kind the switch does not list returns at once.
\<close>

definition getKsaFromWorkload ::
  "Clientset \<Rightarrow> string \<Rightarrow> string \<Rightarrow> string \<Rightarrow> world \<Rightarrow> (error + string) \<times> world" where
  "getKsaFromWorkload clientset namespace name wType w =
     (let t = ToLower wType in
      if t = ''deployment'' \<or> t = ''deploy'' then
        (afterSwitch namespace name wType
           (case Deployments clientset namespace name of
              Inl err \<Rightarrow> Inl err
            | Inr workload \<Rightarrow>
                Inr (ServiceAccountName (PodTemplateSpec_Spec
                       (DeploymentSpec_Template (Deployment_Spec workload))))),
         invoke (DeploymentGet namespace name) w)
      else if t = ''statefulset'' \<or> t = ''sts'' then
        (afterSwitch namespace name wType
           (case StatefulSets clientset namespace name of
              Inl err \<Rightarrow> Inl err
            | Inr workload \<Rightarrow>
                Inr (ServiceAccountName (PodTemplateSpec_Spec
                       (StatefulSetSpec_Template (StatefulSet_Spec workload))))),
         invoke (StatefulSetGet namespace name) w)
      else if t = ''daemonset'' \<or> t = ''ds'' then
        (afterSwitch namespace name wType
           (case DaemonSets clientset namespace name of
              Inl err \<Rightarrow> Inl err
            | Inr workload \<Rightarrow>
                Inr (ServiceAccountName (PodTemplateSpec_Spec
                       (DaemonSetSpec_Template (DaemonSet_Spec workload))))),
         invoke (DaemonSetGet namespace name) w)
      else if t = ''job'' then
        (afterSwitch namespace name wType
           (case Jobs clientset namespace name of
              Inl err \<Rightarrow> Inl err
            | Inr workload \<Rightarrow>
                Inr (ServiceAccountName (PodTemplateSpec_Spec
                       (JobSpec_Template (Job_Spec workload))))),
         invoke (JobGet namespace name) w)
      else if t = ''cronjob'' \<or> t = ''cj'' then
        (afterSwitch namespace name wType
           (case CronJobs clientset namespace name of
              Inl err \<Rightarrow> Inl err
            | Inr workload \<Rightarrow>
                Inr (ServiceAccountName (PodTemplateSpec_Spec
                       (JobSpec_Template (JobTemplateSpec_Spec
                          (CronJobSpec_JobTemplate (CronJob_Spec workload))))))),
         invoke (CronJobGet namespace name) w)
      else
        (Inl (errUnsupported wType), w))"

section \<open>Checking a service account\<close>

subsection \<open>The two principal strings\<close>

text \<open>
  The two \<open>fmt.Sprintf\<close> calls of \<open>performKsaCheck\<close> that build the strings looked for
  in policies; their first argument is the package-level \<open>projectID\<close>.
\<close>

definition legacySyntax :: "string \<Rightarrow> string \<Rightarrow> string \<Rightarrow> string" where
  "legacySyntax project ksaNamespace ksaName =
     ''serviceAccount:'' @ project @ ''.svc.id.goog['' @ ksaNamespace @ ''/'' @ ksaName @ '']''"

definition principalSchema :: "string \<Rightarrow> string \<Rightarrow> string \<Rightarrow> string" where
  "principalSchema project ksaNamespace ksaName =
     project @ ''.svc.id.goog/subject/ns/'' @ ksaNamespace @ ''/sa/'' @ ksaName"

subsection \<open>The loops over a policy\<close>

text \<open>
  Without annotation: the inner loop over the members of one binding stores the first
  member that contains one of the two strings and leaves the loop (\<open>break\<close>); the outer
  loop visits every binding, carrying \<open>foundMember\<close> from one to the next.
\<close>

fun membersLoopB :: "string \<Rightarrow> string \<Rightarrow> string list \<Rightarrow> string \<Rightarrow> string" where
  "membersLoopB ps ls [] foundMember = foundMember"
| "membersLoopB ps ls (m # ms) foundMember =
     (if Contains m ps \<or> Contains m ls then m
      else membersLoopB ps ls ms foundMember)"

fun bindingsLoopB :: "string \<Rightarrow> string \<Rightarrow> Binding list \<Rightarrow> string \<Rightarrow> string" where
  "bindingsLoopB ps ls [] foundMember = foundMember"
| "bindingsLoopB ps ls (binding # bindings) foundMember =
     bindingsLoopB ps ls bindings (membersLoopB ps ls (Members binding) foundMember)"

text \<open>
  With annotation: the inner loop runs only in a binding of the given role and sets
  \<open>bindingFound\<close> at a member equal to the legacy string; the outer loop stops as soon as
  \<open>bindingFound\<close> is set.
\<close>

fun membersLoopA :: "string \<Rightarrow> string list \<Rightarrow> bool \<Rightarrow> bool" where
  "membersLoopA ls [] bindingFound = bindingFound"
| "membersLoopA ls (m # ms) bindingFound =
     (if m = ls then True else membersLoopA ls ms bindingFound)"

fun bindingsLoopA :: "string \<Rightarrow> string \<Rightarrow> Binding list \<Rightarrow> bool \<Rightarrow> bool" where
  "bindingsLoopA role ls [] bindingFound = bindingFound"
| "bindingsLoopA role ls (binding # bindings) bindingFound =
     (let bindingFound' =
            (if Role binding = role then membersLoopA ls (Members binding) bindingFound
             else bindingFound)
      in if bindingFound' then bindingFound'
         else bindingsLoopA role ls bindings bindingFound')"

subsection \<open>Messages\<close>

text \<open>
  The format strings of the print and \<open>fmt.Errorf\<close> calls, each applied to its
  arguments. A message printed with \<open>fmt.Println\<close> is given without the final newline
  that \<open>Println\<close> adds.
\<close>

definition msgStarting :: "string \<Rightarrow> string \<Rightarrow> string" where
  "msgStarting ksaNamespace ksaName =
     e_search @ '' Starting GKE Workload Identity analysis for KSA: '' @ ksaNamespace @ ''/''
     @ ksaName @ nl"

definition msgCheckingCluster :: "string \<Rightarrow> string \<Rightarrow> string" where
  "msgCheckingCluster cluster_name cluster_location =
     ''1. Checking cluster '' @ sq cluster_name @ '' in '' @ sq cluster_location @ ''...'' @ nl"

definition msgEnabled :: "string \<Rightarrow> string" where
  "msgEnabled workloadPool =
     ''   '' @ e_check @ '' Workload Identity is enabled. Workload Pool: '' @ workloadPool @ nl"

definition msgCheckingKsa :: "string \<Rightarrow> string \<Rightarrow> string" where
  "msgCheckingKsa ksaNamespace ksaName =
     nl @ ''2. Checking K8s Service Account '' @ sq (ksaNamespace @ ''/'' @ ksaName) @ ''...''
     @ nl"

definition errKsaNotFound :: "string \<Rightarrow> string \<Rightarrow> error \<Rightarrow> error" where
  "errKsaNotFound ksaName ksaNamespace err =
     ''failed to get Kubernetes Service Account '' @ sq ksaName @ '' in namespace ''
     @ sq ksaNamespace @ '': '' @ err"

definition msgFoundKsa :: "string \<Rightarrow> string \<Rightarrow> string" where
  "msgFoundKsa ksaNamespace ksaName =
     ''   '' @ e_check @ '' Found KSA '' @ sq (ksaNamespace @ ''/'' @ ksaName) @ ''.'' @ nl"

definition errIamClient :: "error \<Rightarrow> error" where
  "errIamClient err = ''failed to create IAM client: '' @ err"

definition msgMissingAnnotation :: "string \<Rightarrow> string \<Rightarrow> string \<Rightarrow> string" where
  "msgMissingAnnotation ksaNamespace ksaName gsaAnnotation =
     ''   '' @ e_info @ ''  KSA '' @ sq (ksaNamespace @ ''/'' @ ksaName) @ '' is missing the ''
     @ sq gsaAnnotation @ '' annotation.'' @ nl"

definition msgCheckingDirect :: string where
  "msgCheckingDirect =
     ''   '' @ e_info
     @ ''  This is not necessarily an error. Checking for direct IAM role bindings on the KSA principal...''"

definition msgStep3Direct :: string where
  "msgStep3Direct =
     nl @ ''3. Checking for direct IAM bindings for KSA principal at the project level...''"

definition errCrmClient :: "error \<Rightarrow> error" where
  "errCrmClient err = ''failed to create Cloud Resource Manager client: '' @ err"

definition errProjectPolicy :: "string \<Rightarrow> error \<Rightarrow> error" where
  "errProjectPolicy project err =
     ''failed to get IAM policy for project '' @ sq project @ '': '' @ err"

definition msgAnnotated :: "string \<Rightarrow> string" where
  "msgAnnotated gsaEmail = ''   '' @ e_check @ '' KSA is annotated with GSA: '' @ gsaEmail @ nl"

definition msgStep3Gsa :: "string \<Rightarrow> string" where
  "msgStep3Gsa gsaEmail = nl @ ''3. Checking IAM binding for GSA '' @ sq gsaEmail @ ''...'' @ nl"

definition errGsaPolicy :: "string \<Rightarrow> error \<Rightarrow> error" where
  "errGsaPolicy gsaEmail err =
     ''failed to get IAM policy for GSA '' @ sq gsaEmail @ '' (does it exist?): '' @ err"

definition dashes :: string where
  "dashes = ''-------------------------------------------------------------''"

definition msgNoDirectBindings :: "string \<Rightarrow> string" where
  "msgNoDirectBindings project =
     ''   '' @ e_cross
     @ '' No direct IAM bindings found for KSA principal at the project level (''
     @ sq project @ '').'' @ nl"

definition msgNotNecessarilyError :: string where
  "msgNotNecessarilyError =
     ''   '' @ e_info
     @ ''  This is not necessarily an error if the principal is assigned role directly on the product.''"

definition msgYouShouldEither :: string where
  "msgYouShouldEither =
     ''   '' @ e_info
     @ ''  If your workload needs permissions at the project level, you should either:''"

definition msgOption1 :: string where
  "msgOption1 =
     tab
     @ ''  1. Grant IAM roles directly to the KSA principal on the project level (recommended).''
     @ nl @ tab @ tab
     @ ''The principal syntax could be found at https://cloud.google.com/kubernetes-engine/docs/concepts/workload-identity#kubernetes-resources-iam-policies''"

definition msgOption2 :: "string \<Rightarrow> string \<Rightarrow> string" where
  "msgOption2 ksaNamespace ksaName =
     tab @ ''  2. Annotate the KSA '' @ sq (ksaNamespace @ ''/'' @ ksaName)
     @ '' to impersonate a GSA .'' @ nl"

definition msgFoundDirect :: "string \<Rightarrow> string" where
  "msgFoundDirect foundMember =
     ''   '' @ e_check @ '' Found direct IAM bindings for KSA principal '' @ sq foundMember
     @ '' at the project level.'' @ nl"

definition msgChecksPassedDirect :: string where
  "msgChecksPassedDirect =
     nl @ e_party
     @ '' Checks passed! The KSA has direct IAM role bindings at the project level.''"

definition msgPleaseEnsure :: string where
  "msgPleaseEnsure =
     ''   Please ensure these roles provide the necessary permissions for your workload to function.''"

definition msgFoundBinding :: "string \<Rightarrow> string \<Rightarrow> string" where
  "msgFoundBinding member role =
     ''   '' @ e_check @ '' Found IAM binding for member '' @ sq member @ '' with role ''
     @ sq role @ ''.'' @ nl"

definition msgAllChecksPassed :: string where
  "msgAllChecksPassed =
     e_party
     @ '' All checks passed! Your Workload Identity setup seems correct for this KSA.''"

definition errNotEnabled :: "string \<Rightarrow> error" where
  "errNotEnabled cluster_name = ''Workload Identity is not enabled on cluster '' @ sq cluster_name"

definition errBindingNotFound :: "string \<Rightarrow> string \<Rightarrow> string \<Rightarrow> string \<Rightarrow> error" where
  "errBindingNotFound gsaEmail project ksaNamespace ksaName =
     ''IAM binding not found. Run the following command to fix:'' @ nl @ nl
     @ ''gcloud iam service-accounts add-iam-policy-binding '' @ gsaEmail @ '' '' @ backslash @ nl
     @ ''  --role=roles/iam.workloadIdentityUser '' @ backslash @ nl
     @ ''  --member='' @ dquote @ ''serviceAccount:'' @ project @ ''.svc.id.goog[''
     @ ksaNamespace @ ''/'' @ ksaName @ '']'' @ dquote"

subsection \<open>The branch without annotation\<close>

text \<open>
  The body of \<open>if !ok || gsaEmail == ""\<close>: the project's policy is fetched and every
  binding is searched for a member that contains one of the two strings.
\<close>

definition checkDirectBindings ::
  "services \<Rightarrow> string \<Rightarrow> string \<Rightarrow> string \<Rightarrow> string \<Rightarrow> string \<Rightarrow> world
   \<Rightarrow> error option \<times> world" where
  "checkDirectBindings gcp ksaNamespace ksaName gsaAnnotation ls ps w0 =
     (let w1 = Printf (msgMissingAnnotation ksaNamespace ksaName gsaAnnotation) w0;
          w2 = Println msgCheckingDirect w1;
          w3 = Println msgStep3Direct w2;
          w4 = invoke CrmNewService w3
      in case crm_NewService gcp of
           Some err \<Rightarrow>
             (Some (errCrmClient err), w4)
         | None \<Rightarrow>
             (let w5 = invoke (ProjectGetIamPolicy (projectID w4)) w4
              in case Projects_GetIamPolicy gcp (projectID w4) of
                   Inl err \<Rightarrow>
                     (Some (errProjectPolicy (projectID w5) err), w5)
                 | Inr policy \<Rightarrow>
                     (let foundMember = bindingsLoopB ps ls (Bindings policy) []
                      in if foundMember = [] then
                           (None,
                            Printf (msgOption2 ksaNamespace ksaName)
                              (Println msgOption1
                                 (Println msgYouShouldEither
                                    (Println msgNotNecessarilyError
                                       (Printf (msgNoDirectBindings (projectID w5)) w5)))))
                         else
                           (None,
                            Println msgPleaseEnsure
                              (Println msgChecksPassedDirect
                                 (Printf (msgFoundDirect foundMember) w5))))))"

subsection \<open>The branch with annotation\<close>

text \<open>
  The \<open>else\<close> branch: the policy of the annotated Google service account is fetched and
  searched for the legacy string under the role \<open>roles/iam.workloadIdentityUser\<close>.
\<close>

definition checkGsaBinding ::
  "services \<Rightarrow> string \<Rightarrow> string \<Rightarrow> string \<Rightarrow> string \<Rightarrow> world \<Rightarrow> error option \<times> world" where
  "checkGsaBinding gcp ksaNamespace ksaName gsaEmail ls w0 =
     (let w1 = Printf (msgAnnotated gsaEmail) w0;
          w2 = Printf (msgStep3Gsa gsaEmail) w1;
          w3 = invoke (GsaGetIamPolicy (''projects/-/serviceAccounts/'' @ gsaEmail)) w2
      in case ServiceAccounts_GetIamPolicy gcp (''projects/-/serviceAccounts/'' @ gsaEmail) of
           Inl err \<Rightarrow>
             (Some (errGsaPolicy gsaEmail err), w3)
         | Inr iamPolicy \<Rightarrow>
             (let role = ''roles/iam.workloadIdentityUser'';
                  bindingFound = bindingsLoopA role ls (Bindings iamPolicy) False
              in if \<not> bindingFound then
                   (Some (errBindingNotFound gsaEmail (projectID w3) ksaNamespace ksaName), w3)
                 else
                   (None,
                    Println msgAllChecksPassed
                      (Println dashes (Printf (msgFoundBinding ls role) w3)))))"

subsection \<open>The check\<close>

text \<open>
  \<open>performKsaCheck\<close>: the cluster's workload-identity configuration, the service account
  and its annotation \<open>iam.gke.io/gcp-service-account\<close>, the IAM client, the two strings,
  then one of the two branches. The result is the error returned (\<open>None\<close> is \<open>nil\<close>) and
  the state after the run.
\<close>

definition performKsaCheck ::
  "services \<Rightarrow> string \<Rightarrow> string \<Rightarrow> Cluster \<Rightarrow> Clientset \<Rightarrow> world \<Rightarrow> error option \<times> world" where
  "performKsaCheck gcp ksaNamespace ksaName cluster clientset w0 =
     (let w1 = Printf (msgStarting ksaNamespace ksaName) w0;
          w2 = Println dashes w1;
          w3 = Printf (msgCheckingCluster (Name cluster) (Location cluster)) w2
      in case WorkloadIdentityConfig cluster of
           None \<Rightarrow> (Some (errNotEnabled (Name cluster)), w3)
         | Some wic \<Rightarrow>
             if WorkloadPool wic = [] then (Some (errNotEnabled (Name cluster)), w3)
             else
               (let workloadPool = WorkloadPool wic;
                    w4 = Printf (msgEnabled workloadPool) w3;
                    w5 = Printf (msgCheckingKsa ksaNamespace ksaName) w4;
                    w6 = invoke (ServiceAccountGet ksaNamespace ksaName) w5
                in case ServiceAccounts clientset ksaNamespace ksaName of
                     Inl err \<Rightarrow>
                       (Some (errKsaNotFound ksaName ksaNamespace err), w6)
                   | Inr ksa \<Rightarrow>
                       (let w7 = Printf (msgFoundKsa ksaNamespace ksaName) w6;
                            gsaAnnotation = ''iam.gke.io/gcp-service-account'';
                            ok = (Annotations ksa gsaAnnotation \<noteq> None);
                            gsaEmail = (case Annotations ksa gsaAnnotation of
                                          None \<Rightarrow> [] | Some v \<Rightarrow> v);
                            w8 = invoke IamNewService w7
                        in case iam_NewService gcp of
                             Some err \<Rightarrow> (Some (errIamClient err), w8)
                           | None \<Rightarrow>
                               (let ls = legacySyntax (projectID w8) ksaNamespace ksaName;
                                    ps = principalSchema (projectID w8) ksaNamespace ksaName
                                in if \<not> ok \<or> gsaEmail = [] then
                                     checkDirectBindings gcp ksaNamespace ksaName
                                       gsaAnnotation ls ps w8
                                   else
                                     checkGsaBinding gcp ksaNamespace ksaName gsaEmail ls w8))))"

section \<open>The command\<close>

text \<open>
  \<open>getGKECluster\<close> asks the cluster manager for the cluster named by project, location
  and cluster name.
\<close>

definition getGKECluster ::
  "platform \<Rightarrow> string \<Rightarrow> string \<Rightarrow> string \<Rightarrow> world \<Rightarrow> (error + Cluster) \<times> world" where
  "getGKECluster pf project loc cluster w =
     (let name = ''projects/'' @ project @ ''/locations/'' @ loc @ ''/clusters/'' @ cluster
      in (GetCluster pf name, invoke (ClusterGet name) w))"

text \<open>
  The \<open>Run\<close> function of \<open>check ksa\<close>: the cluster manager client, the cluster, the
  client set, the check. \<open>log.Fatalf\<close> ends the process with exit code 1; a \<open>Run\<close> that
  returns lets the process end with exit code 0. The result is the exit code and the
  state. What \<open>log.Fatalf\<close> writes goes to standard error behind a time stamp and is left
  out.
\<close>

definition ksaCmd_Run ::
  "platform \<Rightarrow> services \<Rightarrow> string \<Rightarrow> string \<Rightarrow> world \<Rightarrow> nat \<times> world" where
  "ksaCmd_Run pf gcp ksaNamespace ksaName w0 =
     (case NewClusterManagerClient pf of
        Some err \<Rightarrow> (1, w0)
      | None \<Rightarrow>
          (let (r, w1) = getGKECluster pf (projectID w0) (location w0) (clusterName w0) w0
           in case r of
                Inl err \<Rightarrow> (1, w1)
              | Inr cluster \<Rightarrow>
                  (case K8sClientset pf cluster of
                     Inl err \<Rightarrow> (1, w1)
                   | Inr clientset \<Rightarrow>
                       (let (e, w2) = performKsaCheck gcp ksaNamespace ksaName cluster clientset w1
                        in case e of Some err \<Rightarrow> (1, w2) | None \<Rightarrow> (0, w2)))))"

section \<open>Scenarios\<close>

text \<open>
  The concrete scenario of the project \<open>acme\<close>: a cluster \<open>prod\<close> whose pool is the
  project's own, the same cluster registered with the pool of another project, and two
  clusters without workload identity (no configuration, and an empty pool).
\<close>

definition acme_world :: world where
  "acme_world =
     \<lparr>projectID = ''acme'', location = ''us-central1'', clusterName = ''prod'',
      stdout = [], calls = []\<rparr>"

definition acme_cluster :: Cluster where
  "acme_cluster =
     \<lparr>Name = ''prod'', Location = ''us-central1'',
      WorkloadIdentityConfig = Some \<lparr>WorkloadPool = ''acme.svc.id.goog''\<rparr>\<rparr>"

definition fleet_cluster :: Cluster where
  "fleet_cluster =
     \<lparr>Name = ''prod'', Location = ''us-central1'',
      WorkloadIdentityConfig = Some \<lparr>WorkloadPool = ''fleet-host.svc.id.goog''\<rparr>\<rparr>"

definition bare_cluster :: Cluster where
  "bare_cluster =
     \<lparr>Name = ''prod'', Location = ''us-central1'', WorkloadIdentityConfig = None\<rparr>"

definition emptyPool_cluster :: Cluster where
  "emptyPool_cluster =
     \<lparr>Name = ''prod'', Location = ''us-central1'',
      WorkloadIdentityConfig = Some \<lparr>WorkloadPool = []\<rparr>\<rparr>"

text \<open>
  The cluster's store: in namespace \<open>ns1\<close> the service account \<open>svc1\<close> is annotated
  with a Google service account, \<open>svc2\<close> has no annotation, \<open>svc3\<close> has an empty one;
  one workload of each kind, none naming a service account.
\<close>

definition podTemplate :: "string \<Rightarrow> PodTemplateSpec" where
  "podTemplate serviceAccountName =
     \<lparr>PodTemplateSpec_Spec = \<lparr>ServiceAccountName = serviceAccountName\<rparr>\<rparr>"

definition acme_store :: Clientset where
  "acme_store =
     \<lparr>ServiceAccounts = (\<lambda>ns n.
        if ns = ''ns1'' \<and> n = ''svc1'' then
          Inr \<lparr>Annotations =
                 [''iam.gke.io/gcp-service-account'' \<mapsto> ''gsa@acme.iam.gserviceaccount.com'']\<rparr>
        else if ns = ''ns1'' \<and> n = ''svc2'' then Inr \<lparr>Annotations = Map.empty\<rparr>
        else if ns = ''ns1'' \<and> n = ''svc3'' then
          Inr \<lparr>Annotations = [''iam.gke.io/gcp-service-account'' \<mapsto> []]\<rparr>
        else Inl ''not found''),
      Deployments = (\<lambda>ns n.
        if ns = ''ns1'' \<and> n = ''web'' then
          Inr \<lparr>Deployment_Spec = \<lparr>DeploymentSpec_Template = podTemplate []\<rparr>\<rparr>
        else Inl ''not found''),
      StatefulSets = (\<lambda>ns n.
        if ns = ''ns1'' \<and> n = ''db'' then
          Inr \<lparr>StatefulSet_Spec = \<lparr>StatefulSetSpec_Template = podTemplate []\<rparr>\<rparr>
        else Inl ''not found''),
      DaemonSets = (\<lambda>ns n.
        if ns = ''ns1'' \<and> n = ''agent'' then
          Inr \<lparr>DaemonSet_Spec = \<lparr>DaemonSetSpec_Template = podTemplate []\<rparr>\<rparr>
        else Inl ''not found''),
      Jobs = (\<lambda>ns n.
        if ns = ''ns1'' \<and> n = ''migrate'' then
          Inr \<lparr>Job_Spec = \<lparr>JobSpec_Template = podTemplate []\<rparr>\<rparr>
        else Inl ''not found''),
      CronJobs = (\<lambda>ns n.
        if ns = ''ns1'' \<and> n = ''nightly'' then
          Inr \<lparr>CronJob_Spec = \<lparr>CronJobSpec_JobTemplate =
                 \<lparr>JobTemplateSpec_Spec = \<lparr>JobSpec_Template = podTemplate []\<rparr>\<rparr>\<rparr>\<rparr>
        else Inl ''not found'')\<rparr>"

text \<open>
  The policy services, answering with the given policy for the Google service account of
  the annotation and with the given policy for the project \<open>acme\<close>.
\<close>

definition acme_gcp :: "Policy \<Rightarrow> Policy \<Rightarrow> services" where
  "acme_gcp gsaPolicy projectPolicy =
     \<lparr>iam_NewService = None, crm_NewService = None,
      Projects_GetIamPolicy = (\<lambda>project.
        if project = ''acme'' then Inr projectPolicy else Inl ''not found''),
      ServiceAccounts_GetIamPolicy = (\<lambda>resource.
        if resource = ''projects/-/serviceAccounts/gsa@acme.iam.gserviceaccount.com''
        then Inr gsaPolicy else Inl ''not found'')\<rparr>"

text \<open>
  Policies: a single binding of the consumer role to one member; no binding at all; two
  bindings that each hold a principal of \<open>ns1/svc2\<close> (the first in the current syntax,
  the second in the legacy syntax); one binding whose only member is the legacy string of
  \<open>ns1/svc2\<close> inside the marker of a deleted principal; one binding that names other
  principals only.
\<close>

definition consumer_binding :: "string \<Rightarrow> Policy" where
  "consumer_binding member =
     \<lparr>Bindings = [\<lparr>Role = ''roles/iam.workloadIdentityUser'', Members = [member]\<rparr>]\<rparr>"

definition no_bindings :: Policy where
  "no_bindings = \<lparr>Bindings = []\<rparr>"

definition two_bindings :: Policy where
  "two_bindings =
     \<lparr>Bindings =
        [\<lparr>Role = ''roles/storage.objectViewer'',
          Members = [''user:alice@example.com'',
                     ''principal://iam.googleapis.com/projects/1234/locations/global/workloadIdentityPools/acme.svc.id.goog/subject/ns/ns1/sa/svc2'']\<rparr>,
         \<lparr>Role = ''roles/pubsub.publisher'',
          Members = [''serviceAccount:acme.svc.id.goog[ns1/svc2]'']\<rparr>]\<rparr>"

definition deleted_member :: Policy where
  "deleted_member =
     \<lparr>Bindings =
        [\<lparr>Role = ''roles/storage.objectViewer'',
          Members = [''deleted:serviceAccount:acme.svc.id.goog[ns1/svc2]?uid=42'']\<rparr>]\<rparr>"

definition other_principals :: Policy where
  "other_principals =
     \<lparr>Bindings =
        [\<lparr>Role = ''roles/viewer'',
          Members = [''user:alice@example.com'',
                     ''serviceAccount:acme.svc.id.goog[ns1/svc1]'']\<rparr>]\<rparr>"

definition acme_platform :: platform where
  "acme_platform =
     \<lparr>NewClusterManagerClient = None,
      GetCluster = (\<lambda>name.
        if name = ''projects/acme/locations/us-central1/clusters/prod'' then Inr acme_cluster
        else Inl ''not found''),
      K8sClientset = (\<lambda>cluster. Inr acme_store)\<rparr>"

section \<open>Basic facts\<close>

subsection \<open>State\<close>

lemma Printf_sel [simp]:
  "projectID (Printf s w) = projectID w"
  "location (Printf s w) = location w"
  "clusterName (Printf s w) = clusterName w"
  "calls (Printf s w) = calls w"
  "stdout (Printf s w) = stdout w @ [s]"
  by (simp_all add: Printf_def)

lemma Println_sel [simp]:
  "projectID (Println s w) = projectID w"
  "location (Println s w) = location w"
  "clusterName (Println s w) = clusterName w"
  "calls (Println s w) = calls w"
  "stdout (Println s w) = stdout w @ [s @ nl]"
  by (simp_all add: Println_def)

lemma invoke_sel [simp]:
  "projectID (invoke c w) = projectID w"
  "location (invoke c w) = location w"
  "clusterName (invoke c w) = clusterName w"
  "calls (invoke c w) = calls w @ [c]"
  "stdout (invoke c w) = stdout w"
  by (simp_all add: invoke_def)

subsection \<open>Substrings\<close>

lemma Contains_iff_sublist: "Contains s sub \<longleftrightarrow> sublist sub s"
  by (induction s) (auto simp: sublist_Cons_right)

lemma Contains_middle: "Contains (a @ s @ b) s"
  by (simp add: Contains_iff_sublist)

lemma Contains_self: "Contains s s"
  by (simp add: Contains_iff_sublist)

lemma Contains_nonempty: "Contains m sub \<Longrightarrow> sub \<noteq> [] \<Longrightarrow> m \<noteq> []"
  by (cases m) auto

lemma legacySyntax_nonempty [simp]: "legacySyntax p n k \<noteq> []"
  by (simp add: legacySyntax_def)

lemma principalSchema_nonempty [simp]: "principalSchema p n k \<noteq> []"
  by (simp add: principalSchema_def)

subsection \<open>The loops\<close>

lemma membersLoopA_iff: "membersLoopA ls ms b \<longleftrightarrow> b \<or> ls \<in> set ms"
  by (induction ms) auto

lemma bindingsLoopA_iff:
  "bindingsLoopA role ls bs b \<longleftrightarrow>
     b \<or> (\<exists>x\<in>set bs. Role x = role \<and> ls \<in> set (Members x))"
  by (induction bs arbitrary: b) (auto simp: membersLoopA_iff Let_def)

lemma membersLoopB_empty_iff:
  assumes "ps \<noteq> []" and "ls \<noteq> []"
  shows "membersLoopB ps ls ms found = [] \<longleftrightarrow>
         found = [] \<and> (\<forall>m\<in>set ms. \<not> Contains m ps \<and> \<not> Contains m ls)"
  using assms by (induction ms) (auto dest: Contains_nonempty)

lemma bindingsLoopB_empty_iff:
  assumes "ps \<noteq> []" and "ls \<noteq> []"
  shows "bindingsLoopB ps ls bs found = [] \<longleftrightarrow>
         found = []
         \<and> (\<forall>b\<in>set bs. \<forall>m\<in>set (Members b). \<not> Contains m ps \<and> \<not> Contains m ls)"
  using assms by (induction bs arbitrary: found) (auto simp: membersLoopB_empty_iff)

subsection \<open>The two branches read the state only through the project id\<close>

lemma checkDirectBindings_master:
  "projectID w = projectID w' \<Longrightarrow>
   checkDirectBindings gcp ns name key ls ps w =
     (fst (checkDirectBindings gcp ns name key ls ps w'),
      w\<lparr>stdout := stdout w @ printed w' (snd (checkDirectBindings gcp ns name key ls ps w')),
        calls := calls w @ called w' (snd (checkDirectBindings gcp ns name key ls ps w'))\<rparr>)"
  by (simp add: checkDirectBindings_def Let_def printed_def called_def Printf_def Println_def
                invoke_def
           split: option.split sum.split)

lemma checkGsaBinding_master:
  "projectID w = projectID w' \<Longrightarrow>
   checkGsaBinding gcp ns name gsa ls w =
     (fst (checkGsaBinding gcp ns name gsa ls w'),
      w\<lparr>stdout := stdout w @ printed w' (snd (checkGsaBinding gcp ns name gsa ls w')),
        calls := calls w @ called w' (snd (checkGsaBinding gcp ns name gsa ls w'))\<rparr>)"
  by (simp add: checkGsaBinding_def Let_def printed_def called_def Printf_def Println_def
                invoke_def
           split: option.split sum.split)

subsection \<open>What each branch returns once its policy is fetched\<close>

lemma checkDirectBindings_ok:
  assumes "crm_NewService gcp = None"
    and "Projects_GetIamPolicy gcp (projectID w) = Inr policy"
  shows "checkDirectBindings gcp ns name key ls ps w =
    (None,
     w\<lparr>stdout := stdout w @ [msgMissingAnnotation ns name key, msgCheckingDirect @ nl,
                              msgStep3Direct @ nl]
          @ (if bindingsLoopB ps ls (Bindings policy) [] = [] then
               [msgNoDirectBindings (projectID w), msgNotNecessarilyError @ nl,
                msgYouShouldEither @ nl, msgOption1 @ nl, msgOption2 ns name]
             else
               [msgFoundDirect (bindingsLoopB ps ls (Bindings policy) []),
                msgChecksPassedDirect @ nl, msgPleaseEnsure @ nl]),
       calls := calls w @ [CrmNewService, ProjectGetIamPolicy (projectID w)]\<rparr>)"
  using assms
  by (simp add: checkDirectBindings_def Let_def Printf_def Println_def invoke_def)

lemma checkGsaBinding_ok:
  assumes "ServiceAccounts_GetIamPolicy gcp (''projects/-/serviceAccounts/'' @ gsaEmail)
             = Inr policy"
  shows "checkGsaBinding gcp ns name gsaEmail ls w =
    (if \<exists>b\<in>set (Bindings policy).
          Role b = ''roles/iam.workloadIdentityUser'' \<and> ls \<in> set (Members b)
     then (None,
           w\<lparr>stdout := stdout w @ [msgAnnotated gsaEmail, msgStep3Gsa gsaEmail,
                                    msgFoundBinding ls ''roles/iam.workloadIdentityUser'',
                                    dashes @ nl, msgAllChecksPassed @ nl],
             calls := calls w
                      @ [GsaGetIamPolicy (''projects/-/serviceAccounts/'' @ gsaEmail)]\<rparr>)
     else (Some (errBindingNotFound gsaEmail (projectID w) ns name),
           w\<lparr>stdout := stdout w @ [msgAnnotated gsaEmail, msgStep3Gsa gsaEmail],
             calls := calls w
                      @ [GsaGetIamPolicy (''projects/-/serviceAccounts/'' @ gsaEmail)]\<rparr>))"
  using assms
  by (simp add: checkGsaBinding_def Let_def Printf_def Println_def invoke_def
                bindingsLoopA_iff)

subsection \<open>The check up to the choice of the branch\<close>

lemma performKsaCheck_reach:
  assumes "WorkloadIdentityConfig c = Some wic" and "WorkloadPool wic \<noteq> []"
    and "ServiceAccounts cs ns name = Inr ksa" and "iam_NewService gcp = None"
  shows "performKsaCheck gcp ns name c cs w =
    (let w8 = w\<lparr>stdout := stdout w @ [msgStarting ns name, dashes @ nl,
                      msgCheckingCluster (Name c) (Location c), msgEnabled (WorkloadPool wic),
                      msgCheckingKsa ns name, msgFoundKsa ns name],
                  calls := calls w @ [ServiceAccountGet ns name, IamNewService]\<rparr>
     in case Annotations ksa ''iam.gke.io/gcp-service-account'' of
          None \<Rightarrow> checkDirectBindings gcp ns name ''iam.gke.io/gcp-service-account''
                    (legacySyntax (projectID w) ns name) (principalSchema (projectID w) ns name) w8
        | Some gsaEmail \<Rightarrow>
            if gsaEmail = [] then
              checkDirectBindings gcp ns name ''iam.gke.io/gcp-service-account''
                (legacySyntax (projectID w) ns name) (principalSchema (projectID w) ns name) w8
            else checkGsaBinding gcp ns name gsaEmail (legacySyntax (projectID w) ns name) w8)"
  using assms
  by (simp add: performKsaCheck_def Let_def Printf_def Println_def invoke_def
           split: option.split)

subsection \<open>The check reads the state only through the project id\<close>

lemma performKsaCheck_master:
  assumes "projectID w = projectID w'"
  shows "performKsaCheck gcp ns name c cs w =
     (fst (performKsaCheck gcp ns name c cs w'),
      w\<lparr>stdout := stdout w @ printed w' (snd (performKsaCheck gcp ns name c cs w')),
        calls := calls w @ called w' (snd (performKsaCheck gcp ns name c cs w'))\<rparr>)"
proof (cases "WorkloadIdentityConfig c")
  case None
  then show ?thesis
    by (simp add: performKsaCheck_def Let_def printed_def called_def Printf_def Println_def)
next
  case (Some wic)
  show ?thesis
  proof (cases "WorkloadPool wic = []")
    case True
    with Some show ?thesis
      by (simp add: performKsaCheck_def Let_def printed_def called_def Printf_def Println_def)
  next
    case enabled: False
    show ?thesis
    proof (cases "ServiceAccounts cs ns name")
      case (Inl err)
      with Some enabled show ?thesis
        by (simp add: performKsaCheck_def Let_def printed_def called_def Printf_def
                      Println_def invoke_def)
    next
      case (Inr ksa)
      show ?thesis
      proof (cases "iam_NewService gcp")
        case (Some err)
        with \<open>WorkloadIdentityConfig c = Some wic\<close> enabled Inr show ?thesis
          by (simp add: performKsaCheck_def Let_def printed_def called_def Printf_def
                        Println_def invoke_def)
      next
        case None
        define pre where "pre = (\<lambda>v. invoke IamNewService (Printf (msgFoundKsa ns name)
           (invoke (ServiceAccountGet ns name) (Printf (msgCheckingKsa ns name)
             (Printf (msgEnabled (WorkloadPool wic))
               (Printf (msgCheckingCluster (Name c) (Location c))
                 (Println dashes (Printf (msgStarting ns name) v))))))))"
        define branch where "branch = (\<lambda>v.
           if Annotations ksa ''iam.gke.io/gcp-service-account'' = None
              \<or> Annotations ksa ''iam.gke.io/gcp-service-account'' = Some []
           then checkDirectBindings gcp ns name ''iam.gke.io/gcp-service-account''
                  (legacySyntax (projectID v) ns name) (principalSchema (projectID v) ns name) v
           else checkGsaBinding gcp ns name
                  (the (Annotations ksa ''iam.gke.io/gcp-service-account''))
                  (legacySyntax (projectID v) ns name) v)"
        have run: "performKsaCheck gcp ns name c cs v = branch (pre v)" for v
          using \<open>WorkloadIdentityConfig c = Some wic\<close> enabled Inr None
          by (auto simp: performKsaCheck_def Let_def branch_def pre_def)
        have pid: "projectID (pre w) = projectID (pre w')"
          using assms by (simp add: pre_def)
        define V where "V = fst (branch (pre w'))"
        define P where "P = printed (pre w') (snd (branch (pre w')))"
        define C where "C = called (pre w') (snd (branch (pre w')))"
        have br: "branch v = (V, v\<lparr>stdout := stdout v @ P, calls := calls v @ C\<rparr>)"
          if "projectID v = projectID (pre w')" for v
          unfolding V_def P_def C_def branch_def
          using checkDirectBindings_master [OF that] checkGsaBinding_master [OF that]
          by (simp add: that)
        have A: "branch (pre w)
                 = (V, (pre w)\<lparr>stdout := stdout (pre w) @ P, calls := calls (pre w) @ C\<rparr>)"
          by (rule br [OF pid])
        have B: "branch (pre w')
                 = (V, (pre w')\<lparr>stdout := stdout (pre w') @ P, calls := calls (pre w') @ C\<rparr>)"
          by (rule br [OF refl])
        show ?thesis
          unfolding run A B
          by (simp add: pre_def printed_def called_def Printf_def Println_def invoke_def)
      qed
    qed
  qed
qed

subsection \<open>The check on each branch\<close>

lemma performKsaCheck_unannotated:
  assumes "WorkloadIdentityConfig c = Some wic" and "WorkloadPool wic \<noteq> []"
    and "ServiceAccounts cs ns name = Inr ksa"
    and "Annotations ksa ''iam.gke.io/gcp-service-account'' = None
         \<or> Annotations ksa ''iam.gke.io/gcp-service-account'' = Some []"
    and "iam_NewService gcp = None" and "crm_NewService gcp = None"
    and "Projects_GetIamPolicy gcp (projectID w) = Inr policy"
  shows "performKsaCheck gcp ns name c cs w =
    (None,
     w\<lparr>stdout := stdout w
          @ [msgStarting ns name, dashes @ nl, msgCheckingCluster (Name c) (Location c),
             msgEnabled (WorkloadPool wic), msgCheckingKsa ns name, msgFoundKsa ns name,
             msgMissingAnnotation ns name ''iam.gke.io/gcp-service-account'',
             msgCheckingDirect @ nl, msgStep3Direct @ nl]
          @ (if bindingsLoopB (principalSchema (projectID w) ns name)
                  (legacySyntax (projectID w) ns name) (Bindings policy) [] = [] then
               [msgNoDirectBindings (projectID w), msgNotNecessarilyError @ nl,
                msgYouShouldEither @ nl, msgOption1 @ nl, msgOption2 ns name]
             else
               [msgFoundDirect (bindingsLoopB (principalSchema (projectID w) ns name)
                                  (legacySyntax (projectID w) ns name) (Bindings policy) []),
                msgChecksPassedDirect @ nl, msgPleaseEnsure @ nl]),
       calls := calls w @ [ServiceAccountGet ns name, IamNewService, CrmNewService,
                           ProjectGetIamPolicy (projectID w)]\<rparr>)"
proof -
  define w8 where "w8 = w\<lparr>stdout := stdout w @ [msgStarting ns name, dashes @ nl,
                      msgCheckingCluster (Name c) (Location c), msgEnabled (WorkloadPool wic),
                      msgCheckingKsa ns name, msgFoundKsa ns name],
                  calls := calls w @ [ServiceAccountGet ns name, IamNewService]\<rparr>"
  have p: "Projects_GetIamPolicy gcp (projectID w8) = Inr policy"
    using assms(7) by (simp add: w8_def)
  have "performKsaCheck gcp ns name c cs w =
        checkDirectBindings gcp ns name ''iam.gke.io/gcp-service-account''
          (legacySyntax (projectID w) ns name) (principalSchema (projectID w) ns name) w8"
    using performKsaCheck_reach [OF assms(1,2,3,5), of w] assms(4)
    by (auto simp: Let_def w8_def)
  also have "\<dots> = (None,
     w8\<lparr>stdout := stdout w8 @ [msgMissingAnnotation ns name ''iam.gke.io/gcp-service-account'',
                                msgCheckingDirect @ nl, msgStep3Direct @ nl]
          @ (if bindingsLoopB (principalSchema (projectID w) ns name)
                  (legacySyntax (projectID w) ns name) (Bindings policy) [] = [] then
               [msgNoDirectBindings (projectID w8), msgNotNecessarilyError @ nl,
                msgYouShouldEither @ nl, msgOption1 @ nl, msgOption2 ns name]
             else
               [msgFoundDirect (bindingsLoopB (principalSchema (projectID w) ns name)
                                  (legacySyntax (projectID w) ns name) (Bindings policy) []),
                msgChecksPassedDirect @ nl, msgPleaseEnsure @ nl]),
       calls := calls w8 @ [CrmNewService, ProjectGetIamPolicy (projectID w8)]\<rparr>)"
    by (rule checkDirectBindings_ok [OF assms(6) p])
  finally show ?thesis
    by (simp add: w8_def)
qed

lemma performKsaCheck_annotated:
  assumes "WorkloadIdentityConfig c = Some wic" and "WorkloadPool wic \<noteq> []"
    and "ServiceAccounts cs ns name = Inr ksa"
    and "Annotations ksa ''iam.gke.io/gcp-service-account'' = Some gsaEmail"
    and "gsaEmail \<noteq> []"
    and "iam_NewService gcp = None"
    and "ServiceAccounts_GetIamPolicy gcp (''projects/-/serviceAccounts/'' @ gsaEmail)
           = Inr policy"
  shows "performKsaCheck gcp ns name c cs w =
    (if \<exists>b\<in>set (Bindings policy).
          Role b = ''roles/iam.workloadIdentityUser''
          \<and> legacySyntax (projectID w) ns name \<in> set (Members b)
     then (None,
           w\<lparr>stdout := stdout w
               @ [msgStarting ns name, dashes @ nl, msgCheckingCluster (Name c) (Location c),
                  msgEnabled (WorkloadPool wic), msgCheckingKsa ns name, msgFoundKsa ns name,
                  msgAnnotated gsaEmail, msgStep3Gsa gsaEmail,
                  msgFoundBinding (legacySyntax (projectID w) ns name)
                    ''roles/iam.workloadIdentityUser'',
                  dashes @ nl, msgAllChecksPassed @ nl],
             calls := calls w
               @ [ServiceAccountGet ns name, IamNewService,
                  GsaGetIamPolicy (''projects/-/serviceAccounts/'' @ gsaEmail)]\<rparr>)
     else (Some (errBindingNotFound gsaEmail (projectID w) ns name),
           w\<lparr>stdout := stdout w
               @ [msgStarting ns name, dashes @ nl, msgCheckingCluster (Name c) (Location c),
                  msgEnabled (WorkloadPool wic), msgCheckingKsa ns name, msgFoundKsa ns name,
                  msgAnnotated gsaEmail, msgStep3Gsa gsaEmail],
             calls := calls w
               @ [ServiceAccountGet ns name, IamNewService,
                  GsaGetIamPolicy (''projects/-/serviceAccounts/'' @ gsaEmail)]\<rparr>))"
proof -
  define w8 where "w8 = w\<lparr>stdout := stdout w @ [msgStarting ns name, dashes @ nl,
                      msgCheckingCluster (Name c) (Location c), msgEnabled (WorkloadPool wic),
                      msgCheckingKsa ns name, msgFoundKsa ns name],
                  calls := calls w @ [ServiceAccountGet ns name, IamNewService]\<rparr>"
  have "performKsaCheck gcp ns name c cs w =
        checkGsaBinding gcp ns name gsaEmail (legacySyntax (projectID w) ns name) w8"
    using performKsaCheck_reach [OF assms(1,2,3,6), of w] assms(4,5)
    by (simp add: Let_def w8_def)
  then show ?thesis
    unfolding checkGsaBinding_ok [OF assms(7)]
    by (simp add: w8_def)
qed

subsection \<open>The remediation message\<close>

lemma errBindingNotFound_Contains:
  "Contains (errBindingNotFound gsaEmail project ns name) gsaEmail"
  "Contains (errBindingNotFound gsaEmail project ns name) project"
  "Contains (errBindingNotFound gsaEmail project ns name) ns"
  "Contains (errBindingNotFound gsaEmail project ns name) name"
  "Contains (errBindingNotFound gsaEmail project ns name)
     (''--member='' @ dquote @ legacySyntax project ns name @ dquote)"
proof -
  let ?e = "errBindingNotFound gsaEmail project ns name"
  have "?e = (''IAM binding not found. Run the following command to fix:'' @ nl @ nl
              @ ''gcloud iam service-accounts add-iam-policy-binding '') @ gsaEmail
             @ ('' '' @ backslash @ nl @ ''  --role=roles/iam.workloadIdentityUser ''
                @ backslash @ nl @ ''  --member='' @ dquote @ ''serviceAccount:'' @ project
                @ ''.svc.id.goog['' @ ns @ ''/'' @ name @ '']'' @ dquote)"
    by (simp add: errBindingNotFound_def)
  then show "Contains ?e gsaEmail"
    by (simp only: Contains_middle)
  have "?e = (''IAM binding not found. Run the following command to fix:'' @ nl @ nl
              @ ''gcloud iam service-accounts add-iam-policy-binding '' @ gsaEmail
              @ '' '' @ backslash @ nl @ ''  --role=roles/iam.workloadIdentityUser ''
              @ backslash @ nl @ ''  --member='' @ dquote @ ''serviceAccount:'') @ project
             @ (''.svc.id.goog['' @ ns @ ''/'' @ name @ '']'' @ dquote)"
    by (simp add: errBindingNotFound_def)
  then show "Contains ?e project"
    by (simp only: Contains_middle)
  have "?e = (''IAM binding not found. Run the following command to fix:'' @ nl @ nl
              @ ''gcloud iam service-accounts add-iam-policy-binding '' @ gsaEmail
              @ '' '' @ backslash @ nl @ ''  --role=roles/iam.workloadIdentityUser ''
              @ backslash @ nl @ ''  --member='' @ dquote @ ''serviceAccount:'' @ project
              @ ''.svc.id.goog['') @ ns @ (''/'' @ name @ '']'' @ dquote)"
    by (simp add: errBindingNotFound_def)
  then show "Contains ?e ns"
    by (simp only: Contains_middle)
  have "?e = (''IAM binding not found. Run the following command to fix:'' @ nl @ nl
              @ ''gcloud iam service-accounts add-iam-policy-binding '' @ gsaEmail
              @ '' '' @ backslash @ nl @ ''  --role=roles/iam.workloadIdentityUser ''
              @ backslash @ nl @ ''  --member='' @ dquote @ ''serviceAccount:'' @ project
              @ ''.svc.id.goog['' @ ns @ ''/'') @ name @ ('']'' @ dquote)"
    by (simp add: errBindingNotFound_def)
  then show "Contains ?e name"
    by (simp only: Contains_middle)
  have "?e = (''IAM binding not found. Run the following command to fix:'' @ nl @ nl
              @ ''gcloud iam service-accounts add-iam-policy-binding '' @ gsaEmail
              @ '' '' @ backslash @ nl @ ''  --role=roles/iam.workloadIdentityUser ''
              @ backslash @ nl @ ''  '')
             @ (''--member='' @ dquote @ legacySyntax project ns name @ dquote) @ []"
    by (simp add: errBindingNotFound_def legacySyntax_def)
  then show "Contains ?e (''--member='' @ dquote @ legacySyntax project ns name @ dquote)"
    by (simp only: Contains_middle)
qed

subsection \<open>The loop without annotation keeps the last binding's match\<close>

lemma bindingsLoopB_last_match:
  assumes "find (\<lambda>m. Contains m ps \<or> Contains m ls) (Members b) = Some m"
    and "\<forall>b'\<in>set bs2. \<forall>m'\<in>set (Members b'). \<not> Contains m' ps \<and> \<not> Contains m' ls"
  shows "bindingsLoopB ps ls (bs1 @ b # bs2) found = m"
proof -
  have inner: "membersLoopB ps ls ms f =
      (case find (\<lambda>m. Contains m ps \<or> Contains m ls) ms of None \<Rightarrow> f | Some m \<Rightarrow> m)"
    for ms f
    by (induction ms) auto
  have none: "membersLoopB ps ls (Members b') f = f" if "b' \<in> set bs2" for b' f
  proof -
    have "find (\<lambda>m. Contains m ps \<or> Contains m ls) (Members b') = None"
      using assms(2) that by (simp add: find_None_iff)
    then show ?thesis
      by (simp add: inner)
  qed
  have tail: "bindingsLoopB ps ls bs f = f" if "set bs \<subseteq> set bs2" for bs f
    using that by (induction bs arbitrary: f) (auto simp: none)
  have app: "bindingsLoopB ps ls (xs @ ys) f = bindingsLoopB ps ls ys (bindingsLoopB ps ls xs f)"
    for xs ys f
    by (induction xs arbitrary: f) auto
  show ?thesis
    by (simp add: app inner assms(1) tail)
qed

subsection \<open>The cluster's pool identifier does not enter the result\<close>

lemma performKsaCheck_pool_irrelevant:
  assumes "WorkloadIdentityConfig c1 = Some wic1" and "WorkloadPool wic1 \<noteq> []"
    and "WorkloadIdentityConfig c2 = Some wic2" and "WorkloadPool wic2 \<noteq> []"
  shows "fst (performKsaCheck gcp ns name c1 cs w) = fst (performKsaCheck gcp ns name c2 cs w)
         \<and> called w (snd (performKsaCheck gcp ns name c1 cs w))
           = called w (snd (performKsaCheck gcp ns name c2 cs w))
         \<and> drop 4 (printed w (snd (performKsaCheck gcp ns name c1 cs w)))
           = drop 4 (printed w (snd (performKsaCheck gcp ns name c2 cs w)))"
proof (cases "ServiceAccounts cs ns name")
  case (Inl err)
  with assms show ?thesis
    by (simp add: performKsaCheck_def Let_def printed_def called_def)
next
  case (Inr ksa)
  show ?thesis
  proof (cases "iam_NewService gcp")
    case (Some err)
    with assms Inr show ?thesis
      by (simp add: performKsaCheck_def Let_def printed_def called_def)
  next
    case None
    define pre where "pre = (\<lambda>(c::Cluster) (wic::WorkloadIdentityConfig).
       w\<lparr>stdout := stdout w @ [msgStarting ns name, dashes @ nl,
                      msgCheckingCluster (Name c) (Location c), msgEnabled (WorkloadPool wic),
                      msgCheckingKsa ns name, msgFoundKsa ns name],
         calls := calls w @ [ServiceAccountGet ns name, IamNewService]\<rparr>)"
    define branch where "branch = (\<lambda>v.
       case Annotations ksa ''iam.gke.io/gcp-service-account'' of
          None \<Rightarrow> checkDirectBindings gcp ns name ''iam.gke.io/gcp-service-account''
                    (legacySyntax (projectID w) ns name) (principalSchema (projectID w) ns name) v
        | Some gsaEmail \<Rightarrow>
            if gsaEmail = [] then
              checkDirectBindings gcp ns name ''iam.gke.io/gcp-service-account''
                (legacySyntax (projectID w) ns name) (principalSchema (projectID w) ns name) v
            else checkGsaBinding gcp ns name gsaEmail (legacySyntax (projectID w) ns name) v)"
    have r1: "performKsaCheck gcp ns name c1 cs w = branch (pre c1 wic1)"
      using performKsaCheck_reach [OF assms(1,2) Inr None, of w]
      by (simp add: Let_def pre_def branch_def)
    have r2: "performKsaCheck gcp ns name c2 cs w = branch (pre c2 wic2)"
      using performKsaCheck_reach [OF assms(3,4) Inr None, of w]
      by (simp add: Let_def pre_def branch_def)
    have pid: "projectID (pre c1 wic1) = projectID (pre c2 wic2)"
      by (simp add: pre_def)
    define V where "V = fst (branch (pre c2 wic2))"
    define P where "P = printed (pre c2 wic2) (snd (branch (pre c2 wic2)))"
    define C where "C = called (pre c2 wic2) (snd (branch (pre c2 wic2)))"
    have br: "branch v = (V, v\<lparr>stdout := stdout v @ P, calls := calls v @ C\<rparr>)"
      if "projectID v = projectID (pre c2 wic2)" for v
      unfolding V_def P_def C_def branch_def
      using checkDirectBindings_master [OF that] checkGsaBinding_master [OF that]
      by (simp split: option.split)
    show ?thesis
      unfolding r1 r2 br [OF pid] br [OF refl]
      by (simp add: pre_def printed_def called_def)
  qed
qed

subsection \<open>The scenarios\<close>

lemma acme_cluster_enabled:
  "WorkloadIdentityConfig acme_cluster = Some \<lparr>WorkloadPool = ''acme.svc.id.goog''\<rparr>"
  "WorkloadPool \<lparr>WorkloadPool = ''acme.svc.id.goog''\<rparr> \<noteq> []"
  by (simp_all add: acme_cluster_def)

lemma fleet_cluster_enabled:
  "WorkloadIdentityConfig fleet_cluster = Some \<lparr>WorkloadPool = ''fleet-host.svc.id.goog''\<rparr>"
  "WorkloadPool \<lparr>WorkloadPool = ''fleet-host.svc.id.goog''\<rparr> \<noteq> []"
  by (simp_all add: fleet_cluster_def)

lemma fleet_cluster_fields:
  "Name fleet_cluster = ''prod''" "Location fleet_cluster = ''us-central1''"
  "WorkloadPool \<lparr>WorkloadPool = ''fleet-host.svc.id.goog''\<rparr> = ''fleet-host.svc.id.goog''"
  by (simp_all add: fleet_cluster_def)

lemma acme_cluster_fields:
  "Name acme_cluster = ''prod''" "Location acme_cluster = ''us-central1''"
  "WorkloadPool \<lparr>WorkloadPool = ''acme.svc.id.goog''\<rparr> = ''acme.svc.id.goog''"
  by (simp_all add: acme_cluster_def)

lemma acme_store_accounts:
  "ServiceAccounts acme_store ''ns1'' ''svc1'' =
     Inr \<lparr>Annotations =
            [''iam.gke.io/gcp-service-account'' \<mapsto> ''gsa@acme.iam.gserviceaccount.com'']\<rparr>"
  "ServiceAccounts acme_store ''ns1'' ''svc2'' = Inr \<lparr>Annotations = Map.empty\<rparr>"
  "ServiceAccounts acme_store ''ns1'' ''svc3'' =
     Inr \<lparr>Annotations = [''iam.gke.io/gcp-service-account'' \<mapsto> []]\<rparr>"
  by (simp_all add: acme_store_def)

lemma acme_annotations:
  "Annotations \<lparr>Annotations =
      [''iam.gke.io/gcp-service-account'' \<mapsto> ''gsa@acme.iam.gserviceaccount.com'']\<rparr>
     ''iam.gke.io/gcp-service-account'' = Some ''gsa@acme.iam.gserviceaccount.com''"
  "''gsa@acme.iam.gserviceaccount.com'' \<noteq> []"
  "Annotations \<lparr>Annotations = Map.empty\<rparr> ''iam.gke.io/gcp-service-account'' = None
   \<or> Annotations \<lparr>Annotations = Map.empty\<rparr> ''iam.gke.io/gcp-service-account'' = Some []"
  "Annotations \<lparr>Annotations = [''iam.gke.io/gcp-service-account'' \<mapsto> []]\<rparr>
     ''iam.gke.io/gcp-service-account'' = None
   \<or> Annotations \<lparr>Annotations = [''iam.gke.io/gcp-service-account'' \<mapsto> []]\<rparr>
     ''iam.gke.io/gcp-service-account'' = Some []"
  by simp_all

lemma acme_gcp_answers:
  "iam_NewService (acme_gcp p q) = None"
  "crm_NewService (acme_gcp p q) = None"
  "Projects_GetIamPolicy (acme_gcp p q) (projectID acme_world) = Inr q"
  "ServiceAccounts_GetIamPolicy (acme_gcp p q)
     (''projects/-/serviceAccounts/'' @ ''gsa@acme.iam.gserviceaccount.com'') = Inr p"
  by (simp_all add: acme_gcp_def acme_world_def)

lemma acme_platform_answers:
  "NewClusterManagerClient acme_platform = None
   \<and> GetCluster acme_platform (''projects/'' @ projectID acme_world @ ''/locations/''
         @ location acme_world @ ''/clusters/'' @ clusterName acme_world) = Inr acme_cluster
   \<and> K8sClientset acme_platform acme_cluster = Inr acme_store"
  by (simp add: acme_platform_def acme_world_def)

lemma acme_world_fields:
  "projectID acme_world = ''acme''" "stdout acme_world = []" "calls acme_world = []"
  by (simp_all add: acme_world_def)

lemma acme_strings:
  "legacySyntax ''acme'' ''ns1'' ''svc1'' = ''serviceAccount:acme.svc.id.goog[ns1/svc1]''"
  "legacySyntax ''acme'' ''ns1'' ''svc2'' = ''serviceAccount:acme.svc.id.goog[ns1/svc2]''"
  "legacySyntax ''acme'' ''ns1'' ''svc3'' = ''serviceAccount:acme.svc.id.goog[ns1/svc3]''"
  "principalSchema ''acme'' ''ns1'' ''svc1'' = ''acme.svc.id.goog/subject/ns/ns1/sa/svc1''"
  "principalSchema ''acme'' ''ns1'' ''svc2'' = ''acme.svc.id.goog/subject/ns/ns1/sa/svc2''"
  "principalSchema ''acme'' ''ns1'' ''svc3'' = ''acme.svc.id.goog/subject/ns/ns1/sa/svc3''"
  by (simp_all add: legacySyntax_def principalSchema_def)

lemma deleted_member_found:
  "bindingsLoopB ''acme.svc.id.goog/subject/ns/ns1/sa/svc2''
     ''serviceAccount:acme.svc.id.goog[ns1/svc2]'' (Bindings deleted_member) []
   = ''deleted:serviceAccount:acme.svc.id.goog[ns1/svc2]?uid=42''"
  by (simp add: deleted_member_def)

lemma acme_store_workloads:
  "Deployments acme_store ''ns1'' ''web''
     = Inr \<lparr>Deployment_Spec = \<lparr>DeploymentSpec_Template = podTemplate []\<rparr>\<rparr>"
  "StatefulSets acme_store ''ns1'' ''db''
     = Inr \<lparr>StatefulSet_Spec = \<lparr>StatefulSetSpec_Template = podTemplate []\<rparr>\<rparr>"
  "DaemonSets acme_store ''ns1'' ''agent''
     = Inr \<lparr>DaemonSet_Spec = \<lparr>DaemonSetSpec_Template = podTemplate []\<rparr>\<rparr>"
  "Jobs acme_store ''ns1'' ''migrate'' = Inr \<lparr>Job_Spec = \<lparr>JobSpec_Template = podTemplate []\<rparr>\<rparr>"
  "CronJobs acme_store ''ns1'' ''nightly''
     = Inr \<lparr>CronJob_Spec = \<lparr>CronJobSpec_JobTemplate =
              \<lparr>JobTemplateSpec_Spec = \<lparr>JobSpec_Template = podTemplate []\<rparr>\<rparr>\<rparr>\<rparr>"
  by (simp_all add: acme_store_def)

lemma ToLower_examples:
  "ToLower ''deployment'' = ''deployment''"
  "ToLower ''Deployment'' = ''deployment''"
  "ToLower ''deploy'' = ''deploy''"
  "ToLower ''StatefulSet'' = ''statefulset''"
  "ToLower ''STS'' = ''sts''"
  "ToLower ''daemonset'' = ''daemonset''"
  "ToLower ''ds'' = ''ds''"
  "ToLower ''JOB'' = ''job''"
  "ToLower ''job'' = ''job''"
  "ToLower ''cronjob'' = ''cronjob''"
  "ToLower ''Cj'' = ''cj''"
  "ToLower ''pod'' = ''pod''"
  by code_simp+

section \<open>Properties of the check\<close>

text \<open>
  C1. Without annotation, the member the run reports is not the first matching member
  met when the bindings are scanned in order. The inner loop stops at the first match of
  a binding, but the outer loop goes on to the following bindings, and each later
  binding that holds a match overwrites the member found so far. So the member reported
  is the first match of the last binding that holds one: if the policy is
  \<open>earlier @ b # later\<close>, \<open>m\<close> is the first member of \<open>b\<close> that contains one of the two
  strings and no member of \<open>later\<close> contains one, the run prints \<open>m\<close>, whatever
  \<open>earlier\<close> holds.
\<close>

theorem C1_last_matching_binding_is_reported:
  assumes "WorkloadIdentityConfig c = Some wic" and "WorkloadPool wic \<noteq> []"
    and "ServiceAccounts cs ns name = Inr ksa"
    and "Annotations ksa ''iam.gke.io/gcp-service-account'' = None
         \<or> Annotations ksa ''iam.gke.io/gcp-service-account'' = Some []"
    and "iam_NewService gcp = None" and "crm_NewService gcp = None"
    and "Projects_GetIamPolicy gcp (projectID w) = Inr policy"
    and "Bindings policy = earlier @ b # later"
    and "find (\<lambda>m. Contains m (principalSchema (projectID w) ns name)
                    \<or> Contains m (legacySyntax (projectID w) ns name)) (Members b) = Some m"
    and "\<forall>b'\<in>set later. \<forall>m'\<in>set (Members b').
           \<not> Contains m' (principalSchema (projectID w) ns name)
           \<and> \<not> Contains m' (legacySyntax (projectID w) ns name)"
  shows "printed w (snd (performKsaCheck gcp ns name c cs w)) =
           [msgStarting ns name, dashes @ nl, msgCheckingCluster (Name c) (Location c),
            msgEnabled (WorkloadPool wic), msgCheckingKsa ns name, msgFoundKsa ns name,
            msgMissingAnnotation ns name ''iam.gke.io/gcp-service-account'',
            msgCheckingDirect @ nl, msgStep3Direct @ nl,
            msgFoundDirect m, msgChecksPassedDirect @ nl, msgPleaseEnsure @ nl]"
proof -
  have found: "bindingsLoopB (principalSchema (projectID w) ns name)
                 (legacySyntax (projectID w) ns name) (Bindings policy) [] = m"
    unfolding assms(8) by (rule bindingsLoopB_last_match [OF assms(9,10)])
  have "Contains m (principalSchema (projectID w) ns name)
        \<or> Contains m (legacySyntax (projectID w) ns name)"
    using assms(9) by (auto simp: find_Some_iff)
  then have "m \<noteq> []"
    by (auto dest: Contains_nonempty)
  then show ?thesis
    by (simp add: performKsaCheck_unannotated [OF assms(1-7)] found printed_def)
qed

text \<open>
  C1, at a policy of two bindings: the first holds a member that contains the
  current-syntax string of \<open>ns1/svc2\<close>, the second holds the legacy string. The first
  binding's member is the first hit of the scan; the member printed is the second
  binding's.
\<close>

theorem C1_last_matching_binding_is_reported_witness:
  "Contains ''principal://iam.googleapis.com/projects/1234/locations/global/workloadIdentityPools/acme.svc.id.goog/subject/ns/ns1/sa/svc2''
     (principalSchema ''acme'' ''ns1'' ''svc2'')
   \<and> printed acme_world (snd (performKsaCheck (acme_gcp no_bindings two_bindings) ''ns1''
          ''svc2'' acme_cluster acme_store acme_world))
     = [msgStarting ''ns1'' ''svc2'', dashes @ nl, msgCheckingCluster ''prod'' ''us-central1'',
        msgEnabled ''acme.svc.id.goog'', msgCheckingKsa ''ns1'' ''svc2'',
        msgFoundKsa ''ns1'' ''svc2'',
        msgMissingAnnotation ''ns1'' ''svc2'' ''iam.gke.io/gcp-service-account'',
        msgCheckingDirect @ nl, msgStep3Direct @ nl,
        msgFoundDirect ''serviceAccount:acme.svc.id.goog[ns1/svc2]'',
        msgChecksPassedDirect @ nl, msgPleaseEnsure @ nl]"
proof -
  have split: "Bindings two_bindings =
      [\<lparr>Role = ''roles/storage.objectViewer'',
        Members = [''user:alice@example.com'',
                   ''principal://iam.googleapis.com/projects/1234/locations/global/workloadIdentityPools/acme.svc.id.goog/subject/ns/ns1/sa/svc2'']\<rparr>]
      @ \<lparr>Role = ''roles/pubsub.publisher'',
          Members = [''serviceAccount:acme.svc.id.goog[ns1/svc2]'']\<rparr> # []"
    by (simp add: two_bindings_def)
  have hit: "find (\<lambda>m. Contains m (principalSchema (projectID acme_world) ''ns1'' ''svc2'')
                        \<or> Contains m (legacySyntax (projectID acme_world) ''ns1'' ''svc2''))
               (Members \<lparr>Role = ''roles/pubsub.publisher'',
                         Members = [''serviceAccount:acme.svc.id.goog[ns1/svc2]'']\<rparr>)
             = Some ''serviceAccount:acme.svc.id.goog[ns1/svc2]''"
    by (simp add: acme_world_fields acme_strings)
  have later: "\<forall>b'\<in>set []. \<forall>m'\<in>set (Members b').
                 \<not> Contains m' (principalSchema (projectID acme_world) ''ns1'' ''svc2'')
                 \<and> \<not> Contains m' (legacySyntax (projectID acme_world) ''ns1'' ''svc2'')"
    by simp
  have first: "Contains ''principal://iam.googleapis.com/projects/1234/locations/global/workloadIdentityPools/acme.svc.id.goog/subject/ns/ns1/sa/svc2''
     (principalSchema ''acme'' ''ns1'' ''svc2'')"
    by (simp add: acme_strings)
  note inst = C1_last_matching_binding_is_reported
    [where w = acme_world and c = acme_cluster and gcp = "acme_gcp no_bindings two_bindings",
     OF acme_cluster_enabled acme_store_accounts(2) acme_annotations(3)
        acme_gcp_answers(1,2,3) split hit later]
  show ?thesis
    using inst first
    by (simp only: acme_world_fields acme_cluster_fields simp_thms)
qed

text \<open>
  C2 does not hold as stated. The cluster reports the pool \<open>fleet-host.svc.id.goog\<close> and
  the project id is \<open>acme\<close>: a policy that binds the consumer role to the legacy string
  built from the cluster's pool is answered with "IAM binding not found", the command
  printed names the string built from the project id, and the policy that binds that
  string passes.
\<close>

theorem C2_pool_not_used_counterexample:
  "WorkloadIdentityConfig fleet_cluster = Some \<lparr>WorkloadPool = ''fleet-host.svc.id.goog''\<rparr>
   \<and> projectID acme_world = ''acme''
   \<and> fst (performKsaCheck
          (acme_gcp (consumer_binding ''serviceAccount:fleet-host.svc.id.goog[ns1/svc1]'')
             no_bindings)
          ''ns1'' ''svc1'' fleet_cluster acme_store acme_world)
       = Some (errBindingNotFound ''gsa@acme.iam.gserviceaccount.com'' ''acme'' ''ns1'' ''svc1'')
   \<and> fst (performKsaCheck
          (acme_gcp (consumer_binding ''serviceAccount:acme.svc.id.goog[ns1/svc1]'') no_bindings)
          ''ns1'' ''svc1'' fleet_cluster acme_store acme_world) = None"
proof -
  note run = performKsaCheck_annotated
    [where w = acme_world and c = fleet_cluster,
     OF fleet_cluster_enabled acme_store_accounts(1) acme_annotations(1,2)
        acme_gcp_answers(1,4)]
  show ?thesis
    unfolding run
    by (simp add: fleet_cluster_enabled acme_world_fields acme_strings consumer_binding_def)
qed

text \<open>
  C2, amended. Once the check has reached the point where the two strings are built (the
  cluster's pool is non-empty, the service account is found, the IAM client is created),
  the strings are those of the project id of the \<open>--project\<close> flag:
  \<open>serviceAccount:<project>.svc.id.goog[<namespace>/<name>]\<close> and
  \<open><project>.svc.id.goog/subject/ns/<namespace>/sa/<name>\<close>. With a non-empty annotation
  the check passes exactly when a binding of the consumer role holds the first of these
  as a member; without annotation it prints the lines of a found direct binding exactly
  when some member contains the second or the first. The pool identifier read from the
  cluster is only required to be non-empty, and printed: any other cluster with a
  non-empty pool identifier gives the same error or none, the same calls, and the same
  text after the first four pieces (the cluster's name and location are in the third,
  its pool identifier in the fourth).
\<close>

theorem C2_candidates_built_from_project_id:
  assumes "WorkloadIdentityConfig c = Some wic" and "WorkloadPool wic \<noteq> []"
    and "ServiceAccounts cs ns name = Inr ksa" and "iam_NewService gcp = None"
  shows "(Annotations ksa ''iam.gke.io/gcp-service-account'' = Some gsaEmail \<and> gsaEmail \<noteq> []
          \<and> ServiceAccounts_GetIamPolicy gcp (''projects/-/serviceAccounts/'' @ gsaEmail)
              = Inr gsaPolicy
          \<longrightarrow> (fst (performKsaCheck gcp ns name c cs w) = None \<longleftrightarrow>
                 (\<exists>b\<in>set (Bindings gsaPolicy).
                    Role b = ''roles/iam.workloadIdentityUser''
                    \<and> ''serviceAccount:'' @ projectID w @ ''.svc.id.goog['' @ ns @ ''/'' @ name
                        @ '']'' \<in> set (Members b))))
         \<and> ((Annotations ksa ''iam.gke.io/gcp-service-account'' = None
              \<or> Annotations ksa ''iam.gke.io/gcp-service-account'' = Some [])
             \<and> crm_NewService gcp = None
             \<and> Projects_GetIamPolicy gcp (projectID w) = Inr projectPolicy
          \<longrightarrow> printed w (snd (performKsaCheck gcp ns name c cs w)) =
                [msgStarting ns name, dashes @ nl, msgCheckingCluster (Name c) (Location c),
                 msgEnabled (WorkloadPool wic), msgCheckingKsa ns name, msgFoundKsa ns name,
                 msgMissingAnnotation ns name ''iam.gke.io/gcp-service-account'',
                 msgCheckingDirect @ nl, msgStep3Direct @ nl]
                @ (if \<exists>b\<in>set (Bindings projectPolicy). \<exists>m\<in>set (Members b).
                         Contains m (projectID w @ ''.svc.id.goog/subject/ns/'' @ ns @ ''/sa/''
                                     @ name)
                         \<or> Contains m (''serviceAccount:'' @ projectID w @ ''.svc.id.goog[''
                                        @ ns @ ''/'' @ name @ '']'')
                   then [msgFoundDirect
                           (bindingsLoopB
                              (projectID w @ ''.svc.id.goog/subject/ns/'' @ ns @ ''/sa/'' @ name)
                              (''serviceAccount:'' @ projectID w @ ''.svc.id.goog['' @ ns @ ''/''
                               @ name @ '']'')
                              (Bindings projectPolicy) []),
                         msgChecksPassedDirect @ nl, msgPleaseEnsure @ nl]
                   else [msgNoDirectBindings (projectID w), msgNotNecessarilyError @ nl,
                         msgYouShouldEither @ nl, msgOption1 @ nl, msgOption2 ns name]))
         \<and> (WorkloadIdentityConfig c' = Some wic' \<and> WorkloadPool wic' \<noteq> []
          \<longrightarrow> fst (performKsaCheck gcp ns name c' cs w) = fst (performKsaCheck gcp ns name c cs w)
              \<and> called w (snd (performKsaCheck gcp ns name c' cs w))
                = called w (snd (performKsaCheck gcp ns name c cs w))
              \<and> drop 4 (printed w (snd (performKsaCheck gcp ns name c' cs w)))
                = drop 4 (printed w (snd (performKsaCheck gcp ns name c cs w))))"
proof (intro conjI impI)
  have L: "legacySyntax (projectID w) ns name
           = ''serviceAccount:'' @ projectID w @ ''.svc.id.goog['' @ ns @ ''/'' @ name @ '']''"
    by (simp add: legacySyntax_def)
  have P: "principalSchema (projectID w) ns name
           = projectID w @ ''.svc.id.goog/subject/ns/'' @ ns @ ''/sa/'' @ name"
    by (simp add: principalSchema_def)
  {
    assume a: "Annotations ksa ''iam.gke.io/gcp-service-account'' = Some gsaEmail \<and> gsaEmail \<noteq> []
          \<and> ServiceAccounts_GetIamPolicy gcp (''projects/-/serviceAccounts/'' @ gsaEmail)
              = Inr gsaPolicy"
    then have a1: "Annotations ksa ''iam.gke.io/gcp-service-account'' = Some gsaEmail"
      and a2: "gsaEmail \<noteq> []"
      and a3: "ServiceAccounts_GetIamPolicy gcp (''projects/-/serviceAccounts/'' @ gsaEmail)
                 = Inr gsaPolicy"
      by blast+
    have "fst (performKsaCheck gcp ns name c cs w) = None \<longleftrightarrow>
                 (\<exists>b\<in>set (Bindings gsaPolicy).
                    Role b = ''roles/iam.workloadIdentityUser''
                    \<and> legacySyntax (projectID w) ns name \<in> set (Members b))"
      unfolding performKsaCheck_annotated [OF assms(1,2,3) a1 a2 assms(4) a3]
      by simp
    then show "fst (performKsaCheck gcp ns name c cs w) = None \<longleftrightarrow>
                 (\<exists>b\<in>set (Bindings gsaPolicy).
                    Role b = ''roles/iam.workloadIdentityUser''
                    \<and> ''serviceAccount:'' @ projectID w @ ''.svc.id.goog['' @ ns @ ''/'' @ name
                        @ '']'' \<in> set (Members b))"
      unfolding L .
  }
  {
    assume b: "(Annotations ksa ''iam.gke.io/gcp-service-account'' = None
              \<or> Annotations ksa ''iam.gke.io/gcp-service-account'' = Some [])
             \<and> crm_NewService gcp = None
             \<and> Projects_GetIamPolicy gcp (projectID w) = Inr projectPolicy"
    then have b1: "Annotations ksa ''iam.gke.io/gcp-service-account'' = None
              \<or> Annotations ksa ''iam.gke.io/gcp-service-account'' = Some []"
      and b2: "crm_NewService gcp = None"
      and b3: "Projects_GetIamPolicy gcp (projectID w) = Inr projectPolicy"
      by blast+
    have e: "bindingsLoopB (principalSchema (projectID w) ns name)
          (legacySyntax (projectID w) ns name) (Bindings projectPolicy) [] = [] \<longleftrightarrow>
        \<not> (\<exists>b\<in>set (Bindings projectPolicy). \<exists>m\<in>set (Members b).
              Contains m (principalSchema (projectID w) ns name)
              \<or> Contains m (legacySyntax (projectID w) ns name))"
      by (simp add: bindingsLoopB_empty_iff)
    have "printed w (snd (performKsaCheck gcp ns name c cs w)) =
                [msgStarting ns name, dashes @ nl, msgCheckingCluster (Name c) (Location c),
                 msgEnabled (WorkloadPool wic), msgCheckingKsa ns name, msgFoundKsa ns name,
                 msgMissingAnnotation ns name ''iam.gke.io/gcp-service-account'',
                 msgCheckingDirect @ nl, msgStep3Direct @ nl]
                @ (if \<exists>b\<in>set (Bindings projectPolicy). \<exists>m\<in>set (Members b).
                         Contains m (principalSchema (projectID w) ns name)
                         \<or> Contains m (legacySyntax (projectID w) ns name)
                   then [msgFoundDirect
                           (bindingsLoopB (principalSchema (projectID w) ns name)
                              (legacySyntax (projectID w) ns name) (Bindings projectPolicy) []),
                         msgChecksPassedDirect @ nl, msgPleaseEnsure @ nl]
                   else [msgNoDirectBindings (projectID w), msgNotNecessarilyError @ nl,
                         msgYouShouldEither @ nl, msgOption1 @ nl, msgOption2 ns name])"
      using e by (simp add: performKsaCheck_unannotated [OF assms(1,2,3) b1 assms(4) b2 b3]
                            printed_def)
    then show "printed w (snd (performKsaCheck gcp ns name c cs w)) =
                [msgStarting ns name, dashes @ nl, msgCheckingCluster (Name c) (Location c),
                 msgEnabled (WorkloadPool wic), msgCheckingKsa ns name, msgFoundKsa ns name,
                 msgMissingAnnotation ns name ''iam.gke.io/gcp-service-account'',
                 msgCheckingDirect @ nl, msgStep3Direct @ nl]
                @ (if \<exists>b\<in>set (Bindings projectPolicy). \<exists>m\<in>set (Members b).
                         Contains m (projectID w @ ''.svc.id.goog/subject/ns/'' @ ns @ ''/sa/''
                                     @ name)
                         \<or> Contains m (''serviceAccount:'' @ projectID w @ ''.svc.id.goog[''
                                        @ ns @ ''/'' @ name @ '']'')
                   then [msgFoundDirect
                           (bindingsLoopB
                              (projectID w @ ''.svc.id.goog/subject/ns/'' @ ns @ ''/sa/'' @ name)
                              (''serviceAccount:'' @ projectID w @ ''.svc.id.goog['' @ ns @ ''/''
                               @ name @ '']'')
                              (Bindings projectPolicy) []),
                         msgChecksPassedDirect @ nl, msgPleaseEnsure @ nl]
                   else [msgNoDirectBindings (projectID w), msgNotNecessarilyError @ nl,
                         msgYouShouldEither @ nl, msgOption1 @ nl, msgOption2 ns name])"
      unfolding L P .
  }
  {
    assume c: "WorkloadIdentityConfig c' = Some wic' \<and> WorkloadPool wic' \<noteq> []"
    then have c1: "WorkloadIdentityConfig c' = Some wic'" and c2: "WorkloadPool wic' \<noteq> []"
      by blast+
    note ind = performKsaCheck_pool_irrelevant [OF c1 c2 assms(1,2), of gcp ns name cs w]
    from ind show "fst (performKsaCheck gcp ns name c' cs w)
                   = fst (performKsaCheck gcp ns name c cs w)"
      by blast
    from ind show "called w (snd (performKsaCheck gcp ns name c' cs w))
                = called w (snd (performKsaCheck gcp ns name c cs w))"
      by blast
    from ind show "drop 4 (printed w (snd (performKsaCheck gcp ns name c' cs w)))
                = drop 4 (printed w (snd (performKsaCheck gcp ns name c cs w)))"
      by blast
  }
qed

text \<open>
  C2, amended, at the cluster that reports the pool of another project: the policy that
  binds the string of project \<open>acme\<close> passes, the project policy whose member contains
  the string of project \<open>acme\<close> is reported as a direct binding, and the cluster with
  the project's own pool gives the same verdict.
\<close>

theorem C2_candidates_built_from_project_id_witness:
  "fst (performKsaCheck
          (acme_gcp (consumer_binding ''serviceAccount:acme.svc.id.goog[ns1/svc1]'') no_bindings)
          ''ns1'' ''svc1'' fleet_cluster acme_store acme_world) = None
   \<and> printed acme_world (snd (performKsaCheck (acme_gcp no_bindings deleted_member) ''ns1''
          ''svc2'' fleet_cluster acme_store acme_world))
     = [msgStarting ''ns1'' ''svc2'', dashes @ nl, msgCheckingCluster ''prod'' ''us-central1'',
        msgEnabled ''fleet-host.svc.id.goog'', msgCheckingKsa ''ns1'' ''svc2'',
        msgFoundKsa ''ns1'' ''svc2'',
        msgMissingAnnotation ''ns1'' ''svc2'' ''iam.gke.io/gcp-service-account'',
        msgCheckingDirect @ nl, msgStep3Direct @ nl,
        msgFoundDirect ''deleted:serviceAccount:acme.svc.id.goog[ns1/svc2]?uid=42'',
        msgChecksPassedDirect @ nl, msgPleaseEnsure @ nl]
   \<and> fst (performKsaCheck
          (acme_gcp (consumer_binding ''serviceAccount:acme.svc.id.goog[ns1/svc1]'') no_bindings)
          ''ns1'' ''svc1'' acme_cluster acme_store acme_world) = None
   \<and> WorkloadPool (the (WorkloadIdentityConfig fleet_cluster))
       \<noteq> WorkloadPool (the (WorkloadIdentityConfig acme_cluster))"
proof -
  note annotated = C2_candidates_built_from_project_id
    [where w = acme_world and c = fleet_cluster and c' = acme_cluster
       and wic' = "\<lparr>WorkloadPool = ''acme.svc.id.goog''\<rparr>"
       and gcp = "acme_gcp (consumer_binding ''serviceAccount:acme.svc.id.goog[ns1/svc1]'')
                    no_bindings"
       and gsaEmail = "''gsa@acme.iam.gserviceaccount.com''"
       and gsaPolicy = "consumer_binding ''serviceAccount:acme.svc.id.goog[ns1/svc1]''"
       and projectPolicy = no_bindings,
     OF fleet_cluster_enabled acme_store_accounts(1) acme_gcp_answers(1)]
  note plain = C2_candidates_built_from_project_id
    [where w = acme_world and c = fleet_cluster and c' = acme_cluster
       and wic' = "\<lparr>WorkloadPool = ''acme.svc.id.goog''\<rparr>"
       and gcp = "acme_gcp no_bindings deleted_member"
       and gsaEmail = "[]" and gsaPolicy = no_bindings and projectPolicy = deleted_member,
     OF fleet_cluster_enabled acme_store_accounts(2) acme_gcp_answers(1)]
  have member: "\<exists>b\<in>set (Bindings (consumer_binding ''serviceAccount:acme.svc.id.goog[ns1/svc1]'')).
       Role b = ''roles/iam.workloadIdentityUser''
       \<and> ''serviceAccount:'' @ projectID acme_world @ ''.svc.id.goog['' @ ''ns1'' @ ''/''
           @ ''svc1'' @ '']'' \<in> set (Members b)"
    by (simp add: consumer_binding_def acme_world_fields)
  have strings:
    "''serviceAccount:'' @ projectID acme_world @ ''.svc.id.goog['' @ ''ns1'' @ ''/'' @ ''svc2''
       @ '']'' = ''serviceAccount:acme.svc.id.goog[ns1/svc2]''"
    "projectID acme_world @ ''.svc.id.goog/subject/ns/'' @ ''ns1'' @ ''/sa/'' @ ''svc2''
       = ''acme.svc.id.goog/subject/ns/ns1/sa/svc2''"
    by (simp_all add: acme_world_fields)
  have hit: "\<exists>b\<in>set (Bindings deleted_member). \<exists>m\<in>set (Members b).
               Contains m ''acme.svc.id.goog/subject/ns/ns1/sa/svc2''
               \<or> Contains m ''serviceAccount:acme.svc.id.goog[ns1/svc2]''"
    by (simp add: deleted_member_def)
  have pools: "WorkloadPool (the (WorkloadIdentityConfig fleet_cluster))
       \<noteq> WorkloadPool (the (WorkloadIdentityConfig acme_cluster))"
    by (simp add: fleet_cluster_def acme_cluster_def)
  have first: "fst (performKsaCheck
          (acme_gcp (consumer_binding ''serviceAccount:acme.svc.id.goog[ns1/svc1]'') no_bindings)
          ''ns1'' ''svc1'' fleet_cluster acme_store acme_world) = None"
    using annotated acme_annotations(1,2) acme_gcp_answers(4) member by blast
  have second: "fst (performKsaCheck
          (acme_gcp (consumer_binding ''serviceAccount:acme.svc.id.goog[ns1/svc1]'') no_bindings)
          ''ns1'' ''svc1'' acme_cluster acme_store acme_world) = None"
  proof -
    have "fst (performKsaCheck
          (acme_gcp (consumer_binding ''serviceAccount:acme.svc.id.goog[ns1/svc1]'') no_bindings)
          ''ns1'' ''svc1'' acme_cluster acme_store acme_world)
      = fst (performKsaCheck
          (acme_gcp (consumer_binding ''serviceAccount:acme.svc.id.goog[ns1/svc1]'') no_bindings)
          ''ns1'' ''svc1'' fleet_cluster acme_store acme_world)"
      using annotated acme_cluster_enabled by blast
    then show ?thesis
      using first by simp
  qed
  have third: "printed acme_world (snd (performKsaCheck (acme_gcp no_bindings deleted_member)
          ''ns1'' ''svc2'' fleet_cluster acme_store acme_world))
     = [msgStarting ''ns1'' ''svc2'', dashes @ nl, msgCheckingCluster ''prod'' ''us-central1'',
        msgEnabled ''fleet-host.svc.id.goog'', msgCheckingKsa ''ns1'' ''svc2'',
        msgFoundKsa ''ns1'' ''svc2'',
        msgMissingAnnotation ''ns1'' ''svc2'' ''iam.gke.io/gcp-service-account'',
        msgCheckingDirect @ nl, msgStep3Direct @ nl,
        msgFoundDirect ''deleted:serviceAccount:acme.svc.id.goog[ns1/svc2]?uid=42'',
        msgChecksPassedDirect @ nl, msgPleaseEnsure @ nl]"
    using plain acme_annotations(3) acme_gcp_answers(2,3) hit
    by (simp only: strings fleet_cluster_fields deleted_member_found acme_world_fields
                   if_True append.simps simp_thms)
  show ?thesis
    using first second third pools by blast
qed

text \<open>
  C3 does not hold as stated. The member
  \<open>deleted:serviceAccount:acme.svc.id.goog[ns1/svc2]?uid=42\<close> is not equal to the legacy
  string of \<open>ns1/svc2\<close> and does not contain the current-syntax string, and the run
  without annotation reports it as a direct binding.
\<close>

theorem C3_legacy_substring_counterexample:
  "''deleted:serviceAccount:acme.svc.id.goog[ns1/svc2]?uid=42''
     \<noteq> legacySyntax ''acme'' ''ns1'' ''svc2''
   \<and> \<not> Contains ''deleted:serviceAccount:acme.svc.id.goog[ns1/svc2]?uid=42''
          (principalSchema ''acme'' ''ns1'' ''svc2'')
   \<and> fst (performKsaCheck (acme_gcp no_bindings deleted_member) ''ns1'' ''svc2''
            acme_cluster acme_store acme_world) = None
   \<and> drop 9 (stdout (snd (performKsaCheck (acme_gcp no_bindings deleted_member) ''ns1'' ''svc2''
            acme_cluster acme_store acme_world)))
       = [msgFoundDirect ''deleted:serviceAccount:acme.svc.id.goog[ns1/svc2]?uid=42'',
          msgChecksPassedDirect @ nl, msgPleaseEnsure @ nl]"
proof -
  note run = performKsaCheck_unannotated
    [where w = acme_world and c = acme_cluster,
     OF acme_cluster_enabled acme_store_accounts(2) acme_annotations(3)
        acme_gcp_answers(1,2,3)]
  show ?thesis
    unfolding run
    by (simp add: acme_world_fields acme_strings deleted_member_found)
qed

text \<open>
  C3, amended. Without annotation, a member of the project's policy matches when it
  contains the current-syntax string or contains the legacy string, both as substrings
  (a member equal to the legacy string is one case). The run prints the lines of a found
  direct binding exactly when some member of some binding contains one of the two
  strings, and the lines of the informational result otherwise.
\<close>

theorem C3_direct_binding_match_is_substring:
  assumes "WorkloadIdentityConfig c = Some wic" and "WorkloadPool wic \<noteq> []"
    and "ServiceAccounts cs ns name = Inr ksa"
    and "Annotations ksa ''iam.gke.io/gcp-service-account'' = None
         \<or> Annotations ksa ''iam.gke.io/gcp-service-account'' = Some []"
    and "iam_NewService gcp = None" and "crm_NewService gcp = None"
    and "Projects_GetIamPolicy gcp (projectID w) = Inr policy"
  shows "printed w (snd (performKsaCheck gcp ns name c cs w)) =
           [msgStarting ns name, dashes @ nl, msgCheckingCluster (Name c) (Location c),
            msgEnabled (WorkloadPool wic), msgCheckingKsa ns name, msgFoundKsa ns name,
            msgMissingAnnotation ns name ''iam.gke.io/gcp-service-account'',
            msgCheckingDirect @ nl, msgStep3Direct @ nl]
           @ (if \<exists>b\<in>set (Bindings policy). \<exists>m\<in>set (Members b).
                    Contains m (principalSchema (projectID w) ns name)
                    \<or> Contains m (legacySyntax (projectID w) ns name)
              then [msgFoundDirect (bindingsLoopB (principalSchema (projectID w) ns name)
                                      (legacySyntax (projectID w) ns name) (Bindings policy) []),
                    msgChecksPassedDirect @ nl, msgPleaseEnsure @ nl]
              else [msgNoDirectBindings (projectID w), msgNotNecessarilyError @ nl,
                    msgYouShouldEither @ nl, msgOption1 @ nl, msgOption2 ns name])"
proof -
  have "bindingsLoopB (principalSchema (projectID w) ns name)
          (legacySyntax (projectID w) ns name) (Bindings policy) [] = [] \<longleftrightarrow>
        \<not> (\<exists>b\<in>set (Bindings policy). \<exists>m\<in>set (Members b).
              Contains m (principalSchema (projectID w) ns name)
              \<or> Contains m (legacySyntax (projectID w) ns name))"
    by (simp add: bindingsLoopB_empty_iff)
  then show ?thesis
    by (simp add: performKsaCheck_unannotated [OF assms] printed_def)
qed

text \<open>
  C3, amended, at the policy with the deleted principal (a match) and at a policy that
  names other principals only (no match).
\<close>

theorem C3_direct_binding_match_is_substring_witness:
  "printed acme_world (snd (performKsaCheck (acme_gcp no_bindings deleted_member) ''ns1'' ''svc2''
            acme_cluster acme_store acme_world))
     = [msgStarting ''ns1'' ''svc2'', dashes @ nl, msgCheckingCluster ''prod'' ''us-central1'',
        msgEnabled ''acme.svc.id.goog'', msgCheckingKsa ''ns1'' ''svc2'',
        msgFoundKsa ''ns1'' ''svc2'',
        msgMissingAnnotation ''ns1'' ''svc2'' ''iam.gke.io/gcp-service-account'',
        msgCheckingDirect @ nl, msgStep3Direct @ nl,
        msgFoundDirect ''deleted:serviceAccount:acme.svc.id.goog[ns1/svc2]?uid=42'',
        msgChecksPassedDirect @ nl, msgPleaseEnsure @ nl]
   \<and> printed acme_world (snd (performKsaCheck (acme_gcp no_bindings other_principals) ''ns1''
            ''svc2'' acme_cluster acme_store acme_world))
     = [msgStarting ''ns1'' ''svc2'', dashes @ nl, msgCheckingCluster ''prod'' ''us-central1'',
        msgEnabled ''acme.svc.id.goog'', msgCheckingKsa ''ns1'' ''svc2'',
        msgFoundKsa ''ns1'' ''svc2'',
        msgMissingAnnotation ''ns1'' ''svc2'' ''iam.gke.io/gcp-service-account'',
        msgCheckingDirect @ nl, msgStep3Direct @ nl,
        msgNoDirectBindings ''acme'', msgNotNecessarilyError @ nl,
        msgYouShouldEither @ nl, msgOption1 @ nl, msgOption2 ''ns1'' ''svc2'']"
proof -
  note found = C3_direct_binding_match_is_substring
    [where w = acme_world and c = acme_cluster and gcp = "acme_gcp no_bindings deleted_member",
     OF acme_cluster_enabled acme_store_accounts(2) acme_annotations(3)
        acme_gcp_answers(1,2,3)]
  note none = C3_direct_binding_match_is_substring
    [where w = acme_world and c = acme_cluster and gcp = "acme_gcp no_bindings other_principals",
     OF acme_cluster_enabled acme_store_accounts(2) acme_annotations(3)
        acme_gcp_answers(1,2,3)]
  have yes: "\<exists>b\<in>set (Bindings deleted_member). \<exists>m\<in>set (Members b).
               Contains m ''acme.svc.id.goog/subject/ns/ns1/sa/svc2''
               \<or> Contains m ''serviceAccount:acme.svc.id.goog[ns1/svc2]''"
    by (simp add: deleted_member_def)
  have no: "\<not> (\<exists>b\<in>set (Bindings other_principals). \<exists>m\<in>set (Members b).
               Contains m ''acme.svc.id.goog/subject/ns/ns1/sa/svc2''
               \<or> Contains m ''serviceAccount:acme.svc.id.goog[ns1/svc2]'')"
    by (simp add: other_principals_def)
  have fields: "Name acme_cluster = ''prod''" "Location acme_cluster = ''us-central1''"
    "WorkloadPool \<lparr>WorkloadPool = ''acme.svc.id.goog''\<rparr> = ''acme.svc.id.goog''"
    by (simp_all add: acme_cluster_def)
  show ?thesis
    using found none yes no
    by (simp only: acme_world_fields acme_strings deleted_member_found fields if_True if_False
                   append.simps simp_thms)
qed

text \<open>
  C4. A cluster whose workload-identity configuration is absent, or whose pool is the
  empty string, makes \<open>performKsaCheck\<close> return the error "Workload Identity is not
  enabled on cluster ..." with no call made: the record of calls after the run is the
  record before it, so neither the service-account store nor one of the two policy
  services (nor the constructor of a policy client) has been reached.
\<close>

theorem C4_no_federation_no_lookup:
  assumes "case WorkloadIdentityConfig cluster of
             None \<Rightarrow> True | Some wic \<Rightarrow> WorkloadPool wic = []"
  shows "fst (performKsaCheck gcp ns name cluster cs w) = Some (errNotEnabled (Name cluster))
         \<and> calls (snd (performKsaCheck gcp ns name cluster cs w)) = calls w"
  using assms by (auto simp: performKsaCheck_def Let_def split: option.splits)

text \<open>
  C4, at the cluster without configuration and at the cluster with an empty pool, for an
  annotated service account whose policy would pass.
\<close>

theorem C4_no_federation_no_lookup_witness:
  "(case WorkloadIdentityConfig bare_cluster of
      None \<Rightarrow> True | Some wic \<Rightarrow> WorkloadPool wic = [])
   \<and> (case WorkloadIdentityConfig emptyPool_cluster of
        None \<Rightarrow> True | Some wic \<Rightarrow> WorkloadPool wic = [])
   \<and> fst (performKsaCheck
            (acme_gcp \<lparr>Bindings = [\<lparr>Role = ''roles/iam.workloadIdentityUser'',
                                    Members = [''serviceAccount:acme.svc.id.goog[ns1/svc1]'']\<rparr>]\<rparr>
                      \<lparr>Bindings = []\<rparr>)
            ''ns1'' ''svc1'' bare_cluster acme_store acme_world)
       = Some (errNotEnabled ''prod'')
   \<and> calls (snd (performKsaCheck
            (acme_gcp \<lparr>Bindings = [\<lparr>Role = ''roles/iam.workloadIdentityUser'',
                                    Members = [''serviceAccount:acme.svc.id.goog[ns1/svc1]'']\<rparr>]\<rparr>
                      \<lparr>Bindings = []\<rparr>)
            ''ns1'' ''svc1'' bare_cluster acme_store acme_world)) = []
   \<and> fst (performKsaCheck
            (acme_gcp \<lparr>Bindings = [\<lparr>Role = ''roles/iam.workloadIdentityUser'',
                                    Members = [''serviceAccount:acme.svc.id.goog[ns1/svc1]'']\<rparr>]\<rparr>
                      \<lparr>Bindings = []\<rparr>)
            ''ns1'' ''svc1'' emptyPool_cluster acme_store acme_world)
       = Some (errNotEnabled ''prod'')
   \<and> calls (snd (performKsaCheck
            (acme_gcp \<lparr>Bindings = [\<lparr>Role = ''roles/iam.workloadIdentityUser'',
                                    Members = [''serviceAccount:acme.svc.id.goog[ns1/svc1]'']\<rparr>]\<rparr>
                      \<lparr>Bindings = []\<rparr>)
            ''ns1'' ''svc1'' emptyPool_cluster acme_store acme_world)) = []"
proof -
  have b: "case WorkloadIdentityConfig bare_cluster of
             None \<Rightarrow> True | Some wic \<Rightarrow> WorkloadPool wic = []"
    by (simp add: bare_cluster_def)
  have e: "case WorkloadIdentityConfig emptyPool_cluster of
             None \<Rightarrow> True | Some wic \<Rightarrow> WorkloadPool wic = []"
    by (simp add: emptyPool_cluster_def)
  have n: "Name bare_cluster = ''prod''" "Name emptyPool_cluster = ''prod''"
    "calls acme_world = []"
    by (simp_all add: bare_cluster_def emptyPool_cluster_def acme_world_def)
  show ?thesis
    using b e C4_no_federation_no_lookup [OF b] C4_no_federation_no_lookup [OF e]
    by (simp only: n simp_thms)
qed

text \<open>
  C5. With a non-empty annotation, once the policy of the annotated Google service
  account is fetched, \<open>performKsaCheck\<close> returns no error exactly when some binding of
  that policy has the role \<open>roles/iam.workloadIdentityUser\<close> and a member equal to the
  legacy string; it then ends with the line "All checks passed!". Otherwise the error is
  the "IAM binding not found" message, which contains the Google service account's name,
  the project id, the namespace and the service account's name.
\<close>

theorem C5_annotated_pass_iff_legacy_member:
  assumes "WorkloadIdentityConfig c = Some wic" and "WorkloadPool wic \<noteq> []"
    and "ServiceAccounts cs ns name = Inr ksa"
    and "Annotations ksa ''iam.gke.io/gcp-service-account'' = Some gsaEmail"
    and "gsaEmail \<noteq> []"
    and "iam_NewService gcp = None"
    and "ServiceAccounts_GetIamPolicy gcp (''projects/-/serviceAccounts/'' @ gsaEmail)
           = Inr policy"
  shows "(fst (performKsaCheck gcp ns name c cs w) = None \<longleftrightarrow>
            (\<exists>b\<in>set (Bindings policy).
               Role b = ''roles/iam.workloadIdentityUser''
               \<and> legacySyntax (projectID w) ns name \<in> set (Members b)))
         \<and> (fst (performKsaCheck gcp ns name c cs w) = None \<longrightarrow>
              last (stdout (snd (performKsaCheck gcp ns name c cs w))) = msgAllChecksPassed @ nl)
         \<and> (fst (performKsaCheck gcp ns name c cs w) \<noteq> None \<longrightarrow>
              fst (performKsaCheck gcp ns name c cs w)
                = Some (errBindingNotFound gsaEmail (projectID w) ns name))
         \<and> Contains (errBindingNotFound gsaEmail (projectID w) ns name) gsaEmail
         \<and> Contains (errBindingNotFound gsaEmail (projectID w) ns name) (projectID w)
         \<and> Contains (errBindingNotFound gsaEmail (projectID w) ns name) ns
         \<and> Contains (errBindingNotFound gsaEmail (projectID w) ns name) name"
  unfolding performKsaCheck_annotated [OF assms]
  by (simp add: errBindingNotFound_Contains)

text \<open>
  C5, at the scenario of project \<open>acme\<close>, namespace \<open>ns1\<close>, service account \<open>svc1\<close>:
  the policy with the member \<open>serviceAccount:acme.svc.id.goog[ns1/svc1]\<close> passes, the
  policy whose member names namespace \<open>ns2\<close> gives the error.
\<close>

theorem C5_annotated_pass_iff_legacy_member_witness:
  "fst (performKsaCheck
          (acme_gcp (consumer_binding ''serviceAccount:acme.svc.id.goog[ns1/svc1]'') no_bindings)
          ''ns1'' ''svc1'' acme_cluster acme_store acme_world) = None
   \<and> last (stdout (snd (performKsaCheck
          (acme_gcp (consumer_binding ''serviceAccount:acme.svc.id.goog[ns1/svc1]'') no_bindings)
          ''ns1'' ''svc1'' acme_cluster acme_store acme_world))) = msgAllChecksPassed @ nl
   \<and> fst (performKsaCheck
          (acme_gcp (consumer_binding ''serviceAccount:acme.svc.id.goog[ns2/svc1]'') no_bindings)
          ''ns1'' ''svc1'' acme_cluster acme_store acme_world)
       = Some (errBindingNotFound ''gsa@acme.iam.gserviceaccount.com'' ''acme'' ''ns1'' ''svc1'')
   \<and> Contains (errBindingNotFound ''gsa@acme.iam.gserviceaccount.com'' ''acme'' ''ns1'' ''svc1'')
        ''gsa@acme.iam.gserviceaccount.com''
   \<and> Contains (errBindingNotFound ''gsa@acme.iam.gserviceaccount.com'' ''acme'' ''ns1'' ''svc1'')
        ''acme''
   \<and> Contains (errBindingNotFound ''gsa@acme.iam.gserviceaccount.com'' ''acme'' ''ns1'' ''svc1'')
        ''ns1''
   \<and> Contains (errBindingNotFound ''gsa@acme.iam.gserviceaccount.com'' ''acme'' ''ns1'' ''svc1'')
        ''svc1''"
proof -
  note pass = C5_annotated_pass_iff_legacy_member
    [where w = acme_world
       and gcp = "acme_gcp (consumer_binding ''serviceAccount:acme.svc.id.goog[ns1/svc1]'')
                    no_bindings",
     OF acme_cluster_enabled acme_store_accounts(1) acme_annotations(1,2)
        acme_gcp_answers(1,4)]
  note fail = C5_annotated_pass_iff_legacy_member
    [where w = acme_world
       and gcp = "acme_gcp (consumer_binding ''serviceAccount:acme.svc.id.goog[ns2/svc1]'')
                    no_bindings",
     OF acme_cluster_enabled acme_store_accounts(1) acme_annotations(1,2)
        acme_gcp_answers(1,4)]
  have yes: "\<exists>b\<in>set (Bindings (consumer_binding ''serviceAccount:acme.svc.id.goog[ns1/svc1]'')).
               Role b = ''roles/iam.workloadIdentityUser''
               \<and> legacySyntax (projectID acme_world) ''ns1'' ''svc1'' \<in> set (Members b)"
    by (simp add: consumer_binding_def acme_world_fields acme_strings)
  have no: "\<not> (\<exists>b\<in>set (Bindings (consumer_binding ''serviceAccount:acme.svc.id.goog[ns2/svc1]'')).
               Role b = ''roles/iam.workloadIdentityUser''
               \<and> legacySyntax (projectID acme_world) ''ns1'' ''svc1'' \<in> set (Members b))"
    by (simp add: consumer_binding_def acme_world_fields acme_strings)
  show ?thesis
    using pass fail yes no by (simp only: acme_world_fields simp_thms)
qed

text \<open>
  C6 does not hold as stated, with a match read as the specification defines it (a member
  equal to the legacy string, or containing the current-syntax string). The only member
  of the project's policy is \<open>deleted:serviceAccount:acme.svc.id.goog[ns1/svc2]?uid=42\<close>:
  it is not equal to the legacy string of \<open>ns1/svc2\<close> and does not contain the
  current-syntax string, so no member matches either form. The run prints the lines of a
  found direct binding, and neither of the two options.
\<close>

theorem C6_contained_legacy_counterexample:
  "Bindings deleted_member =
     [\<lparr>Role = ''roles/storage.objectViewer'',
       Members = [''deleted:serviceAccount:acme.svc.id.goog[ns1/svc2]?uid=42'']\<rparr>]
   \<and> ''deleted:serviceAccount:acme.svc.id.goog[ns1/svc2]?uid=42''
       \<noteq> ''serviceAccount:acme.svc.id.goog[ns1/svc2]''
   \<and> \<not> Contains ''deleted:serviceAccount:acme.svc.id.goog[ns1/svc2]?uid=42''
          ''acme.svc.id.goog/subject/ns/ns1/sa/svc2''
   \<and> legacySyntax (projectID acme_world) ''ns1'' ''svc2''
       = ''serviceAccount:acme.svc.id.goog[ns1/svc2]''
   \<and> principalSchema (projectID acme_world) ''ns1'' ''svc2''
       = ''acme.svc.id.goog/subject/ns/ns1/sa/svc2''
   \<and> printed acme_world (snd (performKsaCheck (acme_gcp no_bindings deleted_member) ''ns1''
          ''svc2'' acme_cluster acme_store acme_world))
     = [msgStarting ''ns1'' ''svc2'', dashes @ nl, msgCheckingCluster ''prod'' ''us-central1'',
        msgEnabled ''acme.svc.id.goog'', msgCheckingKsa ''ns1'' ''svc2'',
        msgFoundKsa ''ns1'' ''svc2'',
        msgMissingAnnotation ''ns1'' ''svc2'' ''iam.gke.io/gcp-service-account'',
        msgCheckingDirect @ nl, msgStep3Direct @ nl,
        msgFoundDirect ''deleted:serviceAccount:acme.svc.id.goog[ns1/svc2]?uid=42'',
        msgChecksPassedDirect @ nl, msgPleaseEnsure @ nl]
   \<and> msgOption1 @ nl \<notin> set (printed acme_world (snd (performKsaCheck
          (acme_gcp no_bindings deleted_member) ''ns1'' ''svc2'' acme_cluster acme_store
          acme_world)))
   \<and> msgOption2 ''ns1'' ''svc2'' \<notin> set (printed acme_world (snd (performKsaCheck
          (acme_gcp no_bindings deleted_member) ''ns1'' ''svc2'' acme_cluster acme_store
          acme_world)))"
proof -
  note run = performKsaCheck_unannotated
    [where w = acme_world and c = acme_cluster,
     OF acme_cluster_enabled acme_store_accounts(2) acme_annotations(3)
        acme_gcp_answers(1,2,3)]
  have out: "printed acme_world (snd (performKsaCheck (acme_gcp no_bindings deleted_member)
          ''ns1'' ''svc2'' acme_cluster acme_store acme_world))
     = [msgStarting ''ns1'' ''svc2'', dashes @ nl, msgCheckingCluster ''prod'' ''us-central1'',
        msgEnabled ''acme.svc.id.goog'', msgCheckingKsa ''ns1'' ''svc2'',
        msgFoundKsa ''ns1'' ''svc2'',
        msgMissingAnnotation ''ns1'' ''svc2'' ''iam.gke.io/gcp-service-account'',
        msgCheckingDirect @ nl, msgStep3Direct @ nl,
        msgFoundDirect ''deleted:serviceAccount:acme.svc.id.goog[ns1/svc2]?uid=42'',
        msgChecksPassedDirect @ nl, msgPleaseEnsure @ nl]"
    unfolding run
    by (simp add: acme_world_fields acme_strings deleted_member_found acme_cluster_fields
                  printed_def)
  have o1: "msgOption1 @ nl \<notin> set
       [msgStarting ''ns1'' ''svc2'', dashes @ nl, msgCheckingCluster ''prod'' ''us-central1'',
        msgEnabled ''acme.svc.id.goog'', msgCheckingKsa ''ns1'' ''svc2'',
        msgFoundKsa ''ns1'' ''svc2'',
        msgMissingAnnotation ''ns1'' ''svc2'' ''iam.gke.io/gcp-service-account'',
        msgCheckingDirect @ nl, msgStep3Direct @ nl,
        msgFoundDirect ''deleted:serviceAccount:acme.svc.id.goog[ns1/svc2]?uid=42'',
        msgChecksPassedDirect @ nl, msgPleaseEnsure @ nl]"
    by (simp add: msgOption1_def msgStarting_def dashes_def msgCheckingCluster_def
                  msgEnabled_def msgCheckingKsa_def msgFoundKsa_def msgMissingAnnotation_def
                  msgCheckingDirect_def msgStep3Direct_def msgFoundDirect_def
                  msgChecksPassedDirect_def msgPleaseEnsure_def
                  tab_def nl_def e_search_def e_check_def e_info_def e_party_def sq_def)
  have o2: "msgOption2 ''ns1'' ''svc2'' \<notin> set
       [msgStarting ''ns1'' ''svc2'', dashes @ nl, msgCheckingCluster ''prod'' ''us-central1'',
        msgEnabled ''acme.svc.id.goog'', msgCheckingKsa ''ns1'' ''svc2'',
        msgFoundKsa ''ns1'' ''svc2'',
        msgMissingAnnotation ''ns1'' ''svc2'' ''iam.gke.io/gcp-service-account'',
        msgCheckingDirect @ nl, msgStep3Direct @ nl,
        msgFoundDirect ''deleted:serviceAccount:acme.svc.id.goog[ns1/svc2]?uid=42'',
        msgChecksPassedDirect @ nl, msgPleaseEnsure @ nl]"
    by (simp add: msgOption2_def msgStarting_def dashes_def msgCheckingCluster_def
                  msgEnabled_def msgCheckingKsa_def msgFoundKsa_def msgMissingAnnotation_def
                  msgCheckingDirect_def msgStep3Direct_def msgFoundDirect_def
                  msgChecksPassedDirect_def msgPleaseEnsure_def
                  tab_def nl_def e_search_def e_check_def e_info_def e_party_def sq_def)
  have basics: "Bindings deleted_member =
     [\<lparr>Role = ''roles/storage.objectViewer'',
       Members = [''deleted:serviceAccount:acme.svc.id.goog[ns1/svc2]?uid=42'']\<rparr>]"
    "''deleted:serviceAccount:acme.svc.id.goog[ns1/svc2]?uid=42''
       \<noteq> ''serviceAccount:acme.svc.id.goog[ns1/svc2]''"
    "\<not> Contains ''deleted:serviceAccount:acme.svc.id.goog[ns1/svc2]?uid=42''
          ''acme.svc.id.goog/subject/ns/ns1/sa/svc2''"
    "legacySyntax (projectID acme_world) ''ns1'' ''svc2''
       = ''serviceAccount:acme.svc.id.goog[ns1/svc2]''"
    "principalSchema (projectID acme_world) ''ns1'' ''svc2''
       = ''acme.svc.id.goog/subject/ns/ns1/sa/svc2''"
    by (simp_all add: deleted_member_def acme_world_fields acme_strings)
  show ?thesis
    unfolding out using basics o1 o2 by blast
qed

text \<open>
  C6, amended. Without annotation (absent or empty), once the project's policy is
  fetched, \<open>performKsaCheck\<close> returns no error whatever the policy holds, and
  \<open>check ksa\<close> ends with exit code 0. When no member of any binding contains the
  current-syntax string or the legacy string as a substring, what it prints ends with the
  line that no direct binding was found, the two lines that this is not necessarily an
  error, and the two options (grant roles to the principal, or annotate the service
  account).
\<close>

theorem C6_unannotated_run_is_not_an_error:
  assumes "WorkloadIdentityConfig c = Some wic" and "WorkloadPool wic \<noteq> []"
    and "ServiceAccounts cs ns name = Inr ksa"
    and "Annotations ksa ''iam.gke.io/gcp-service-account'' = None
         \<or> Annotations ksa ''iam.gke.io/gcp-service-account'' = Some []"
    and "iam_NewService gcp = None" and "crm_NewService gcp = None"
    and "Projects_GetIamPolicy gcp (projectID w) = Inr policy"
  shows "fst (performKsaCheck gcp ns name c cs w) = None
         \<and> (NewClusterManagerClient pf = None
              \<and> GetCluster pf (''projects/'' @ projectID w @ ''/locations/'' @ location w
                                @ ''/clusters/'' @ clusterName w) = Inr c
              \<and> K8sClientset pf c = Inr cs
              \<longrightarrow> fst (ksaCmd_Run pf gcp ns name w) = 0)
         \<and> ((\<forall>b\<in>set (Bindings policy). \<forall>m\<in>set (Members b).
                \<not> Contains m (principalSchema (projectID w) ns name)
                \<and> \<not> Contains m (legacySyntax (projectID w) ns name))
              \<longrightarrow> printed w (snd (performKsaCheck gcp ns name c cs w)) =
                   [msgStarting ns name, dashes @ nl, msgCheckingCluster (Name c) (Location c),
                    msgEnabled (WorkloadPool wic), msgCheckingKsa ns name, msgFoundKsa ns name,
                    msgMissingAnnotation ns name ''iam.gke.io/gcp-service-account'',
                    msgCheckingDirect @ nl, msgStep3Direct @ nl,
                    msgNoDirectBindings (projectID w), msgNotNecessarilyError @ nl,
                    msgYouShouldEither @ nl, msgOption1 @ nl, msgOption2 ns name])"
proof -
  have run: "fst (performKsaCheck gcp ns name c cs v) = None" if "projectID v = projectID w" for v
  proof -
    have "Projects_GetIamPolicy gcp (projectID v) = Inr policy"
      using assms(7) that by simp
    from performKsaCheck_unannotated [OF assms(1-6) this] show ?thesis
      by simp
  qed
  have exit0: "fst (ksaCmd_Run pf gcp ns name w) = 0"
    if "NewClusterManagerClient pf = None"
      and "GetCluster pf (''projects/'' @ projectID w @ ''/locations/'' @ location w
                          @ ''/clusters/'' @ clusterName w) = Inr c"
      and "K8sClientset pf c = Inr cs"
    using that run [of "invoke (ClusterGet (''projects/'' @ projectID w @ ''/locations/''
                          @ location w @ ''/clusters/'' @ clusterName w)) w"]
    by (simp add: ksaCmd_Run_def getGKECluster_def Let_def case_prod_beta)
  show ?thesis
  proof (intro conjI impI)
    show "fst (performKsaCheck gcp ns name c cs w) = None"
      by (rule run [OF refl])
    assume "NewClusterManagerClient pf = None
            \<and> GetCluster pf (''projects/'' @ projectID w @ ''/locations/'' @ location w
                              @ ''/clusters/'' @ clusterName w) = Inr c
            \<and> K8sClientset pf c = Inr cs"
    then show "fst (ksaCmd_Run pf gcp ns name w) = 0"
      using exit0 by blast
  next
    assume none: "\<forall>b\<in>set (Bindings policy). \<forall>m\<in>set (Members b).
                \<not> Contains m (principalSchema (projectID w) ns name)
                \<and> \<not> Contains m (legacySyntax (projectID w) ns name)"
    have nomatch: "bindingsLoopB (principalSchema (projectID w) ns name)
                   (legacySyntax (projectID w) ns name) (Bindings policy) [] = []"
      using none by (simp add: bindingsLoopB_empty_iff)
    show "printed w (snd (performKsaCheck gcp ns name c cs w)) =
             [msgStarting ns name, dashes @ nl, msgCheckingCluster (Name c) (Location c),
              msgEnabled (WorkloadPool wic), msgCheckingKsa ns name, msgFoundKsa ns name,
              msgMissingAnnotation ns name ''iam.gke.io/gcp-service-account'',
              msgCheckingDirect @ nl, msgStep3Direct @ nl,
              msgNoDirectBindings (projectID w), msgNotNecessarilyError @ nl,
              msgYouShouldEither @ nl, msgOption1 @ nl, msgOption2 ns name]"
      by (simp add: performKsaCheck_unannotated [OF assms(1-7)] nomatch printed_def)
  qed
qed

text \<open>
  C6, amended, at the service account \<open>svc3\<close>, whose annotation is empty, against a
  project policy that names other principals only, and at \<open>svc2\<close> against the policy
  with the deleted principal.
\<close>

theorem C6_unannotated_run_is_not_an_error_witness:
  "fst (performKsaCheck (acme_gcp no_bindings other_principals) ''ns1'' ''svc3''
          acme_cluster acme_store acme_world) = None
   \<and> fst (ksaCmd_Run acme_platform (acme_gcp no_bindings other_principals) ''ns1'' ''svc3''
            acme_world) = 0
   \<and> printed acme_world (snd (performKsaCheck (acme_gcp no_bindings other_principals) ''ns1''
          ''svc3'' acme_cluster acme_store acme_world))
     = [msgStarting ''ns1'' ''svc3'', dashes @ nl, msgCheckingCluster ''prod'' ''us-central1'',
        msgEnabled ''acme.svc.id.goog'', msgCheckingKsa ''ns1'' ''svc3'',
        msgFoundKsa ''ns1'' ''svc3'',
        msgMissingAnnotation ''ns1'' ''svc3'' ''iam.gke.io/gcp-service-account'',
        msgCheckingDirect @ nl, msgStep3Direct @ nl,
        msgNoDirectBindings ''acme'', msgNotNecessarilyError @ nl,
        msgYouShouldEither @ nl, msgOption1 @ nl, msgOption2 ''ns1'' ''svc3'']
   \<and> fst (performKsaCheck (acme_gcp no_bindings deleted_member) ''ns1'' ''svc2''
          acme_cluster acme_store acme_world) = None
   \<and> fst (ksaCmd_Run acme_platform (acme_gcp no_bindings deleted_member) ''ns1'' ''svc2''
            acme_world) = 0"
proof -
  have none: "\<forall>b\<in>set (Bindings other_principals). \<forall>m\<in>set (Members b).
                \<not> Contains m (principalSchema (projectID acme_world) ''ns1'' ''svc3'')
                \<and> \<not> Contains m (legacySyntax (projectID acme_world) ''ns1'' ''svc3'')"
    by (simp add: other_principals_def acme_world_fields acme_strings)
  note quiet = C6_unannotated_run_is_not_an_error
    [where w = acme_world and c = acme_cluster and pf = acme_platform
       and gcp = "acme_gcp no_bindings other_principals",
     OF acme_cluster_enabled acme_store_accounts(3) acme_annotations(4)
        acme_gcp_answers(1,2,3)]
  note found = C6_unannotated_run_is_not_an_error
    [where w = acme_world and c = acme_cluster and pf = acme_platform
       and gcp = "acme_gcp no_bindings deleted_member",
     OF acme_cluster_enabled acme_store_accounts(2) acme_annotations(3)
        acme_gcp_answers(1,2,3)]
  show ?thesis
    using quiet found acme_platform_answers none
    by (simp only: acme_world_fields acme_cluster_fields simp_thms)
qed

text \<open>
  C9. Two runs of \<open>performKsaCheck\<close> in a row, on the same arguments and against the
  same answers of the services, the second starting in the state the first has left:
  both return the same error or both return none, both write the same text and both
  make the same calls.
\<close>

theorem C9_two_runs_equal:
  "fst (performKsaCheck gcp ns name cluster cs
          (snd (performKsaCheck gcp ns name cluster cs w)))
     = fst (performKsaCheck gcp ns name cluster cs w)
   \<and> printed (snd (performKsaCheck gcp ns name cluster cs w))
        (snd (performKsaCheck gcp ns name cluster cs
                (snd (performKsaCheck gcp ns name cluster cs w))))
     = printed w (snd (performKsaCheck gcp ns name cluster cs w))
   \<and> called (snd (performKsaCheck gcp ns name cluster cs w))
        (snd (performKsaCheck gcp ns name cluster cs
                (snd (performKsaCheck gcp ns name cluster cs w))))
     = called w (snd (performKsaCheck gcp ns name cluster cs w))"
proof -
  define w1 where "w1 = snd (performKsaCheck gcp ns name cluster cs w)"
  have first: "performKsaCheck gcp ns name cluster cs w =
      (fst (performKsaCheck gcp ns name cluster cs w),
       w\<lparr>stdout := stdout w @ printed w w1, calls := calls w @ called w w1\<rparr>)"
    unfolding w1_def by (rule performKsaCheck_master [OF refl])
  then have w1: "w1 = w\<lparr>stdout := stdout w @ printed w w1, calls := calls w @ called w w1\<rparr>"
    unfolding w1_def by (metis snd_conv)
  have pid: "projectID w1 = projectID w"
    using arg_cong [OF w1, of projectID] by simp
  have second: "performKsaCheck gcp ns name cluster cs w1 =
      (fst (performKsaCheck gcp ns name cluster cs w),
       w1\<lparr>stdout := stdout w1 @ printed w w1, calls := calls w1 @ called w w1\<rparr>)"
    unfolding w1_def [symmetric]
    using performKsaCheck_master [OF pid, of gcp ns name cluster cs]
    by (simp add: w1_def)
  show ?thesis
    unfolding w1_def [symmetric] second
    by (simp add: printed_def called_def)
qed

text \<open>
  C9, at the passing scenario: the second run returns no error and makes the three calls
  of the first.
\<close>

theorem C9_two_runs_equal_witness:
  "fst (performKsaCheck
          (acme_gcp (consumer_binding ''serviceAccount:acme.svc.id.goog[ns1/svc1]'') no_bindings)
          ''ns1'' ''svc1'' acme_cluster acme_store
          (snd (performKsaCheck
             (acme_gcp (consumer_binding ''serviceAccount:acme.svc.id.goog[ns1/svc1]'')
                no_bindings)
             ''ns1'' ''svc1'' acme_cluster acme_store acme_world))) = None
   \<and> called
        (snd (performKsaCheck
           (acme_gcp (consumer_binding ''serviceAccount:acme.svc.id.goog[ns1/svc1]'')
              no_bindings)
           ''ns1'' ''svc1'' acme_cluster acme_store acme_world))
        (snd (performKsaCheck
           (acme_gcp (consumer_binding ''serviceAccount:acme.svc.id.goog[ns1/svc1]'')
              no_bindings)
           ''ns1'' ''svc1'' acme_cluster acme_store
           (snd (performKsaCheck
              (acme_gcp (consumer_binding ''serviceAccount:acme.svc.id.goog[ns1/svc1]'')
                 no_bindings)
              ''ns1'' ''svc1'' acme_cluster acme_store acme_world))))
     = [ServiceAccountGet ''ns1'' ''svc1'', IamNewService,
        GsaGetIamPolicy ''projects/-/serviceAccounts/gsa@acme.iam.gserviceaccount.com'']"
proof -
  let ?gcp = "acme_gcp (consumer_binding ''serviceAccount:acme.svc.id.goog[ns1/svc1]'')
                no_bindings"
  note run = performKsaCheck_annotated
    [where w = acme_world and c = acme_cluster and gcp = ?gcp,
     OF acme_cluster_enabled acme_store_accounts(1) acme_annotations(1,2)
        acme_gcp_answers(1,4)]
  have first: "fst (performKsaCheck ?gcp ''ns1'' ''svc1'' acme_cluster acme_store acme_world)
                 = None"
    "called acme_world
       (snd (performKsaCheck ?gcp ''ns1'' ''svc1'' acme_cluster acme_store acme_world))
     = [ServiceAccountGet ''ns1'' ''svc1'', IamNewService,
        GsaGetIamPolicy ''projects/-/serviceAccounts/gsa@acme.iam.gserviceaccount.com'']"
    unfolding run
    by (simp_all add: acme_world_fields acme_strings consumer_binding_def called_def)
  show ?thesis
    using C9_two_runs_equal
      [of ?gcp "''ns1''" "''svc1''" acme_cluster acme_store acme_world] first
    by simp
qed

section \<open>Properties of the workload resolution\<close>

text \<open>
  C7. For each of the five kinds (under any spelling the switch accepts), a workload
  that exists and whose pod template names no service account resolves to the string
  \<open>default\<close>.
\<close>

theorem C7_empty_identity_resolves_to_default:
  "(ToLower wType = ''deployment'' \<or> ToLower wType = ''deploy'' \<longrightarrow>
      Deployments cs ns name = Inr d \<longrightarrow>
      ServiceAccountName (PodTemplateSpec_Spec (DeploymentSpec_Template (Deployment_Spec d))) = []
      \<longrightarrow> fst (getKsaFromWorkload cs ns name wType w) = Inr ''default'')
   \<and> (ToLower wType = ''statefulset'' \<or> ToLower wType = ''sts'' \<longrightarrow>
      StatefulSets cs ns name = Inr s \<longrightarrow>
      ServiceAccountName (PodTemplateSpec_Spec (StatefulSetSpec_Template (StatefulSet_Spec s)))
        = []
      \<longrightarrow> fst (getKsaFromWorkload cs ns name wType w) = Inr ''default'')
   \<and> (ToLower wType = ''daemonset'' \<or> ToLower wType = ''ds'' \<longrightarrow>
      DaemonSets cs ns name = Inr a \<longrightarrow>
      ServiceAccountName (PodTemplateSpec_Spec (DaemonSetSpec_Template (DaemonSet_Spec a))) = []
      \<longrightarrow> fst (getKsaFromWorkload cs ns name wType w) = Inr ''default'')
   \<and> (ToLower wType = ''job'' \<longrightarrow>
      Jobs cs ns name = Inr j \<longrightarrow>
      ServiceAccountName (PodTemplateSpec_Spec (JobSpec_Template (Job_Spec j))) = []
      \<longrightarrow> fst (getKsaFromWorkload cs ns name wType w) = Inr ''default'')
   \<and> (ToLower wType = ''cronjob'' \<or> ToLower wType = ''cj'' \<longrightarrow>
      CronJobs cs ns name = Inr cj \<longrightarrow>
      ServiceAccountName (PodTemplateSpec_Spec (JobSpec_Template (JobTemplateSpec_Spec
        (CronJobSpec_JobTemplate (CronJob_Spec cj))))) = []
      \<longrightarrow> fst (getKsaFromWorkload cs ns name wType w) = Inr ''default'')"
  by (auto simp: getKsaFromWorkload_def afterSwitch_def Let_def)

text \<open>
  C7, at one workload of each kind in the store of the scenario.
\<close>

theorem C7_empty_identity_resolves_to_default_witness:
  "fst (getKsaFromWorkload acme_store ''ns1'' ''web'' ''deployment'' acme_world) = Inr ''default''
   \<and> fst (getKsaFromWorkload acme_store ''ns1'' ''db'' ''StatefulSet'' acme_world)
       = Inr ''default''
   \<and> fst (getKsaFromWorkload acme_store ''ns1'' ''agent'' ''daemonset'' acme_world)
       = Inr ''default''
   \<and> fst (getKsaFromWorkload acme_store ''ns1'' ''migrate'' ''job'' acme_world) = Inr ''default''
   \<and> fst (getKsaFromWorkload acme_store ''ns1'' ''nightly'' ''cronjob'' acme_world)
       = Inr ''default''"
  using C7_empty_identity_resolves_to_default
          [of "''deployment''" acme_store "''ns1''" "''web''" _ acme_world]
        C7_empty_identity_resolves_to_default
          [of "''StatefulSet''" acme_store "''ns1''" "''db''" _ acme_world]
        C7_empty_identity_resolves_to_default
          [of "''daemonset''" acme_store "''ns1''" "''agent''" _ acme_world]
        C7_empty_identity_resolves_to_default
          [of "''job''" acme_store "''ns1''" "''migrate''" _ acme_world]
        C7_empty_identity_resolves_to_default
          [of "''cronjob''" acme_store "''ns1''" "''nightly''" _ acme_world]
  by (simp add: ToLower_examples acme_store_workloads podTemplate_def)

text \<open>
  C8 does not hold as stated. The kind string \<open>deploy\<close> is none of \<open>deployment\<close>,
  \<open>statefulset\<close>, \<open>daemonset\<close>, \<open>job\<close>, \<open>cronjob\<close>, and \<open>getKsaFromWorkload\<close> does
  not refuse it: it fetches the deployment and resolves it.
\<close>

theorem C8_alias_is_fetched_counterexample:
  "''deploy'' \<notin> {''deployment'', ''statefulset'', ''daemonset'', ''job'', ''cronjob''}
   \<and> getKsaFromWorkload acme_store ''ns1'' ''web'' ''deploy'' acme_world
       = (Inr ''default'', invoke (DeploymentGet ''ns1'' ''web'') acme_world)
   \<and> calls (invoke (DeploymentGet ''ns1'' ''web'') acme_world) = [DeploymentGet ''ns1'' ''web'']"
  by (simp add: getKsaFromWorkload_def afterSwitch_def Let_def ToLower_examples
                acme_store_workloads podTemplate_def acme_world_fields)

text \<open>
  C8, amended. A kind string whose lower-case form is none of the nine names the switch
  accepts (the five kinds and \<open>deploy\<close>, \<open>sts\<close>, \<open>ds\<close>, \<open>cj\<close>) is refused with
  "unsupported workload type" and the state is unchanged: no fetch has been made.
\<close>

theorem C8_unsupported_kind_fails_before_fetch:
  assumes "ToLower wType \<notin> {''deployment'', ''deploy'', ''statefulset'', ''sts'', ''daemonset'',
                              ''ds'', ''job'', ''cronjob'', ''cj''}"
  shows "getKsaFromWorkload cs ns name wType w = (Inl (errUnsupported wType), w)"
  using assms by (simp add: getKsaFromWorkload_def Let_def)

text \<open>
  C8, amended, at the kind \<open>pod\<close>.
\<close>

theorem C8_unsupported_kind_fails_before_fetch_witness:
  "getKsaFromWorkload acme_store ''ns1'' ''web'' ''pod'' acme_world
     = (Inl (errUnsupported ''pod''), acme_world)
   \<and> calls acme_world = []"
proof -
  have "ToLower ''pod'' \<notin> {''deployment'', ''deploy'', ''statefulset'', ''sts'', ''daemonset'',
                             ''ds'', ''job'', ''cronjob'', ''cj''}"
    by (simp add: ToLower_examples)
  from C8_unsupported_kind_fails_before_fetch [OF this] show ?thesis
    by (simp add: acme_world_fields)
qed

text \<open>
  C10. The store \<open>getKsaFromWorkload\<close> queries is decided by the lower-case form of the
  kind string, and \<open>deploy\<close>, \<open>sts\<close>, \<open>ds\<close> and \<open>cj\<close> select the same store as
  \<open>deployment\<close>, \<open>statefulset\<close>, \<open>daemonset\<close> and \<open>cronjob\<close>. Two kind strings with
  the same lower-case form, or an abbreviation and its full name, make the same call and
  resolve to the same service account name.
\<close>

theorem C10_kind_dispatch_folds_case_and_accepts_aliases:
  "called w (snd (getKsaFromWorkload cs ns name wType w)) =
     (if ToLower wType \<in> {''deployment'', ''deploy''} then [DeploymentGet ns name]
      else if ToLower wType \<in> {''statefulset'', ''sts''} then [StatefulSetGet ns name]
      else if ToLower wType \<in> {''daemonset'', ''ds''} then [DaemonSetGet ns name]
      else if ToLower wType = ''job'' then [JobGet ns name]
      else if ToLower wType \<in> {''cronjob'', ''cj''} then [CronJobGet ns name]
      else [])
   \<and> (ToLower wType = ToLower wType'
        \<or> (ToLower wType, ToLower wType') \<in> {(''deploy'', ''deployment''), (''sts'', ''statefulset''),
                                              (''ds'', ''daemonset''), (''cj'', ''cronjob'')}
      \<longrightarrow> (\<forall>ksa. fst (getKsaFromWorkload cs ns name wType w) = Inr ksa
                  \<longleftrightarrow> fst (getKsaFromWorkload cs ns name wType' w) = Inr ksa)
          \<and> called w (snd (getKsaFromWorkload cs ns name wType w))
            = called w (snd (getKsaFromWorkload cs ns name wType' w)))"
proof (intro conjI impI)
  show "called w (snd (getKsaFromWorkload cs ns name wType w)) =
     (if ToLower wType \<in> {''deployment'', ''deploy''} then [DeploymentGet ns name]
      else if ToLower wType \<in> {''statefulset'', ''sts''} then [StatefulSetGet ns name]
      else if ToLower wType \<in> {''daemonset'', ''ds''} then [DaemonSetGet ns name]
      else if ToLower wType = ''job'' then [JobGet ns name]
      else if ToLower wType \<in> {''cronjob'', ''cj''} then [CronJobGet ns name]
      else [])"
    by (simp add: getKsaFromWorkload_def Let_def called_def)
next
  assume rel: "ToLower wType = ToLower wType'
        \<or> (ToLower wType, ToLower wType') \<in> {(''deploy'', ''deployment''), (''sts'', ''statefulset''),
                                              (''ds'', ''daemonset''), (''cj'', ''cronjob'')}"
  have same: "(\<exists>e. afterSwitch ns name wType r = Inl e) \<longleftrightarrow> (\<exists>e. afterSwitch ns name wType' r = Inl e)"
             "afterSwitch ns name wType r = Inr k \<longleftrightarrow> afterSwitch ns name wType' r = Inr k"
    for r k
    by (auto simp: afterSwitch_def split: sum.splits)
  show "\<forall>ksa. fst (getKsaFromWorkload cs ns name wType w) = Inr ksa
                  \<longleftrightarrow> fst (getKsaFromWorkload cs ns name wType' w) = Inr ksa"
    using rel by (auto simp: getKsaFromWorkload_def Let_def same(2) errUnsupported_def)
  show "called w (snd (getKsaFromWorkload cs ns name wType w))
            = called w (snd (getKsaFromWorkload cs ns name wType' w))"
    using rel by (auto simp: getKsaFromWorkload_def Let_def called_def)
qed

text \<open>
  C10, at mixed-case spellings and at the four abbreviations.
\<close>

theorem C10_kind_dispatch_folds_case_and_accepts_aliases_witness:
  "called acme_world (snd (getKsaFromWorkload acme_store ''ns1'' ''web'' ''Deployment'' acme_world))
     = [DeploymentGet ''ns1'' ''web'']
   \<and> called acme_world (snd (getKsaFromWorkload acme_store ''ns1'' ''web'' ''deploy'' acme_world))
     = [DeploymentGet ''ns1'' ''web'']
   \<and> called acme_world (snd (getKsaFromWorkload acme_store ''ns1'' ''db'' ''STS'' acme_world))
     = [StatefulSetGet ''ns1'' ''db'']
   \<and> called acme_world (snd (getKsaFromWorkload acme_store ''ns1'' ''agent'' ''ds'' acme_world))
     = [DaemonSetGet ''ns1'' ''agent'']
   \<and> called acme_world (snd (getKsaFromWorkload acme_store ''ns1'' ''migrate'' ''JOB'' acme_world))
     = [JobGet ''ns1'' ''migrate'']
   \<and> called acme_world (snd (getKsaFromWorkload acme_store ''ns1'' ''nightly'' ''Cj'' acme_world))
     = [CronJobGet ''ns1'' ''nightly'']
   \<and> fst (getKsaFromWorkload acme_store ''ns1'' ''web'' ''deploy'' acme_world) = Inr ''default''
   \<and> fst (getKsaFromWorkload acme_store ''ns1'' ''web'' ''Deployment'' acme_world)
       = Inr ''default''"
  using C10_kind_dispatch_folds_case_and_accepts_aliases
          [of acme_world acme_store "''ns1''" "''web''" "''Deployment''" "''deployment''"]
        C10_kind_dispatch_folds_case_and_accepts_aliases
          [of acme_world acme_store "''ns1''" "''web''" "''deploy''" "''Deployment''"]
        C10_kind_dispatch_folds_case_and_accepts_aliases
          [of acme_world acme_store "''ns1''" "''db''" "''STS''" "''StatefulSet''"]
        C10_kind_dispatch_folds_case_and_accepts_aliases
          [of acme_world acme_store "''ns1''" "''agent''" "''ds''" "''daemonset''"]
        C10_kind_dispatch_folds_case_and_accepts_aliases
          [of acme_world acme_store "''ns1''" "''migrate''" "''JOB''" "''job''"]
        C10_kind_dispatch_folds_case_and_accepts_aliases
          [of acme_world acme_store "''ns1''" "''nightly''" "''Cj''" "''cronjob''"]
  by (simp add: ToLower_examples getKsaFromWorkload_def afterSwitch_def Let_def
                acme_store_workloads podTemplate_def)

end
